theory Spec2Isabelle
  imports Complex_Main
begin

section \<open>Data model (types.ts, constants.ts)\<close>

text \<open>
  A JavaScript string is a sequence of UTF-16 code units; \<open>length\<close> counts code units,
  as \<open>String.prototype.length\<close> does. The replacement character U+FFFD and the placeholder
  U+25A1 are single code units. JavaScript numbers that hold scores are modelled as exact
  reals; lengths, counts and sizes are natural numbers.
\<close>

type_synonym jschar = nat
type_synonym jsstring = "jschar list"

datatype OptimizationProfile = Economy | Balanced | Accuracy

datatype ModelType = FLASH | PRO

record OcrProfilePolicy =
  model :: ModelType
  imageMaxDimension :: nat
  imageChunkSize :: nat
  minQualityScore :: real
  carryContextChars :: int

definition OCR_PROFILE_ORDER :: "OptimizationProfile list" where
  "OCR_PROFILE_ORDER = [Economy, Balanced, Accuracy]"

fun OCR_PROFILE_POLICIES :: "OptimizationProfile \<Rightarrow> OcrProfilePolicy" where
  "OCR_PROFILE_POLICIES Economy =
     \<lparr>model = FLASH, imageMaxDimension = 1600, imageChunkSize = 8,
      minQualityScore = 0.58, carryContextChars = 240\<rparr>"
| "OCR_PROFILE_POLICIES Balanced =
     \<lparr>model = FLASH, imageMaxDimension = 2200, imageChunkSize = 5,
      minQualityScore = 0.72, carryContextChars = 420\<rparr>"
| "OCR_PROFILE_POLICIES Accuracy =
     \<lparr>model = PRO, imageMaxDimension = 3200, imageChunkSize = 3,
      minQualityScore = 0.0, carryContextChars = 640\<rparr>"

definition PDF_ESCALATION_THRESHOLD :: real where "PDF_ESCALATION_THRESHOLD = 0.45"
definition OCR_CACHE_TTL_MS :: int where "OCR_CACHE_TTL_MS = 1000 * 60 * 60 * 24"
definition OUTPUT_STREAM_CHUNK_SIZE :: nat where "OUTPUT_STREAM_CHUNK_SIZE = 1400"
definition QUALITY_VERIFIER_SAMPLE_CHARS :: nat where "QUALITY_VERIFIER_SAMPLE_CHARS = 2200"

section \<open>Candidate profiles for a PDF (geminiService.ts)\<close>






section \<open>Strings (built-ins of the host language used by the services)\<close>

text \<open>
  The white space of \<open>String.prototype.trim\<close> and of the regular expression class \<open>\s\<close>:
  TAB, LF, VT, FF, CR, SPACE, NBSP, U+1680, U+2000..U+200A, U+2028, U+2029, U+202F, U+205F,
  U+3000 and U+FEFF.
\<close>

definition is_space :: "jschar \<Rightarrow> bool" where
  "is_space c \<longleftrightarrow>
     c = 9 \<or> c = 10 \<or> c = 11 \<or> c = 12 \<or> c = 13 \<or> c = 32 \<or> c = 160 \<or> c = 5760
     \<or> (8192 \<le> c \<and> c \<le> 8202) \<or> c = 8232 \<or> c = 8233 \<or> c = 8239 \<or> c = 8287
     \<or> c = 12288 \<or> c = 65279"

text \<open>The class \<open>\w\<close>: \<open>[A-Za-z0-9_]\<close>.\<close>

definition is_word :: "jschar \<Rightarrow> bool" where
  "is_word c \<longleftrightarrow> (65 \<le> c \<and> c \<le> 90) \<or> (97 \<le> c \<and> c \<le> 122) \<or> (48 \<le> c \<and> c \<le> 57) \<or> c = 95"

text \<open>Line terminators, which \<open>.\<close> does not match: LF, CR, U+2028, U+2029.\<close>

definition is_line_terminator :: "jschar \<Rightarrow> bool" where
  "is_line_terminator c \<longleftrightarrow> c = 10 \<or> c = 13 \<or> c = 8232 \<or> c = 8233"

definition trim :: "jsstring \<Rightarrow> jsstring" where
  "trim s = rev (dropWhile is_space (rev (dropWhile is_space s)))"

text \<open>\<open>s.split(d)\<close> for a one-character separator: the empty string gives one empty piece.\<close>

fun split_on :: "jschar \<Rightarrow> jsstring \<Rightarrow> jsstring list" where
  "split_on d [] = [[]]"
| "split_on d (c # cs) =
     (if c = d then [] # split_on d cs
      else (case split_on d cs of [] \<Rightarrow> [[c]] | l # ls \<Rightarrow> (c # l) # ls))"

text \<open>\<open>parts.join('\n')\<close>.\<close>

fun join_nl :: "jsstring list \<Rightarrow> jsstring" where
  "join_nl [] = []"
| "join_nl [x] = x"
| "join_nl (x # y # ys) = x @ [10] @ join_nl (y # ys)"

text \<open>\<open>xs.slice(-n)\<close> for a positive literal \<open>n\<close>: the last \<open>n\<close> elements, all of them if fewer.\<close>

definition slice_last :: "nat \<Rightarrow> 'a list \<Rightarrow> 'a list" where
  "slice_last n xs = drop (length xs - n) xs"

text \<open>
  \<open>xs.slice(start)\<close> for an integral \<open>start\<close>: a negative start counts from the end and
  stops at 0, a start beyond the end gives the empty result.
\<close>

definition slice_from :: "int \<Rightarrow> 'a list \<Rightarrow> 'a list" where
  "slice_from start xs =
     (let len = int (length xs);
          from = (if start < 0 then max (len + start) 0 else min start len)
      in drop (nat from) xs)"

text \<open>\<open>xs.slice(start, end)\<close> for natural numbers \<open>start \<le> end\<close>.\<close>

definition slice :: "nat \<Rightarrow> nat \<Rightarrow> 'a list \<Rightarrow> 'a list" where
  "slice start end xs = take (end - start) (drop start xs)"

text \<open>\<open>xs.indexOf(x)\<close>: the first index of \<open>x\<close>, or -1.\<close>

fun indexOf :: "'a list \<Rightarrow> 'a \<Rightarrow> int" where
  "indexOf [] x = - 1"
| "indexOf (y # ys) x =
     (if y = x then 0 else (let r = indexOf ys x in if r < 0 then - 1 else r + 1))"

text \<open>
  \<open>/^#{1,6}\s/.test(line)\<close>: the line starts with between one and six \<open>#\<close> (35) followed by
  a white space. A \<open>#\<close> is no white space, so the white space can only follow the whole run
  of leading \<open>#\<close>, which must then have at most six of them.
\<close>

definition is_heading :: "jsstring \<Rightarrow> bool" where
  "is_heading line \<longleftrightarrow>
     (let hashes = takeWhile (\<lambda>c. c = 35) line in
      1 \<le> length hashes \<and> length hashes \<le> 6 \<and>
      (case dropWhile (\<lambda>c. c = 35) line of [] \<Rightarrow> False | c # _ \<Rightarrow> is_space c))"

text \<open>\<open>/\|/.test(line)\<close>: the line contains \<open>|\<close> (124).\<close>

definition is_table_line :: "jsstring \<Rightarrow> bool" where
  "is_table_line line \<longleftrightarrow> 124 \<in> set line"

section \<open>Carry context (imageService.ts)\<close>

definition carry_lines :: "jsstring \<Rightarrow> jsstring list" where
  "carry_lines text = filter (\<lambda>line. line \<noteq> []) (map trim (split_on 10 text))"

definition carry_merged :: "jsstring list \<Rightarrow> jsstring list" where
  "carry_merged lines =
     (let headingLines = slice_last 3 (filter is_heading lines);
          tableLines = slice_last 3 (filter is_table_line lines);
          tailLines = slice_last 4 lines
      in headingLines @ tableLines @ tailLines)"

text \<open>\<open>merged.filter((line, idx) => merged.indexOf(line) === idx)\<close>.\<close>

definition carry_deduped :: "jsstring list \<Rightarrow> jsstring list" where
  "carry_deduped merged =
     map fst (filter (\<lambda>(line, idx). indexOf merged line = int idx)
                     (zip merged [0 ..< length merged]))"

definition extractCarryContext :: "jsstring \<Rightarrow> int \<Rightarrow> jsstring" where
  "extractCarryContext text maxChars =
     (let lines = carry_lines text;
          merged = carry_merged lines;
          deduped = carry_deduped merged;
          joined = join_nl deduped
      in if int (length joined) \<le> maxChars then joined
         else slice_from (int (length joined) - maxChars) joined)"

text \<open>
  The specification's wording of the de-duplication: a line is kept where it occurs first,
  that is, when it is not among the lines already seen.
\<close>

fun keep_first_occurrences :: "'a list \<Rightarrow> 'a list \<Rightarrow> 'a list" where
  "keep_first_occurrences seen [] = []"
| "keep_first_occurrences seen (x # xs) =
     (if x \<in> set seen then keep_first_occurrences seen xs
      else x # keep_first_occurrences (x # seen) xs)"

definition spec_carry_joined :: "jsstring \<Rightarrow> jsstring" where
  "spec_carry_joined text =
     (let lines = carry_lines text in
      join_nl (keep_first_occurrences []
        (slice_last 3 (filter is_heading lines) @ slice_last 3 (filter is_table_line lines)
         @ slice_last 4 lines)))"

section \<open>Quality heuristic (geminiService.ts and imageService.ts)\<close>

record QualityAssessment =
  score :: real
  reasons :: "string list"

definition normalizedLines :: "jsstring \<Rightarrow> jsstring list" where
  "normalizedLines text =
     filter (\<lambda>line. line \<noteq> []) (map trim (split_on 10 (filter (\<lambda>c. c \<noteq> 13) text)))"

text \<open>\<open>(s.match(/c/g) ?? []).length\<close> for a single character \<open>c\<close>.\<close>

definition count_char :: "jschar \<Rightarrow> jsstring \<Rightarrow> nat" where
  "count_char c s = length (filter (\<lambda>x. x = c) s)"

text \<open>
  \<open>(s.match(/[class]{n,}/g) ?? []).length\<close> for \<open>n > 0\<close>: the global match scans from the left;
  at each position the quantifier takes the longest run of the class; when the run has at
  least \<open>n\<close> characters it is one match and the scan goes on behind it, otherwise the scan
  moves one character on.
\<close>

function count_class_runs :: "(jschar \<Rightarrow> bool) \<Rightarrow> nat \<Rightarrow> jsstring \<Rightarrow> nat" where
  "count_class_runs P n [] = 0"
| "count_class_runs P n (c # cs) =
     (if 0 < n \<and> n \<le> length (takeWhile P (c # cs))
      then 1 + count_class_runs P n (dropWhile P (c # cs))
      else count_class_runs P n cs)"
  by pat_completeness auto
termination
proof (relation "measure (\<lambda>(P, n, s). length s)")
  fix P :: "jschar \<Rightarrow> bool" and n :: nat and c :: jschar and cs :: jsstring
  assume "0 < n \<and> n \<le> length (takeWhile P (c # cs))"
  then have "P c" by (cases "P c") auto
  then have "length (dropWhile P (c # cs)) \<le> length cs"
    by (simp add: length_dropWhile_le)
  then show "((P, n, dropWhile P (c # cs)), (P, n, c # cs)) \<in> measure (\<lambda>(P, n, s). length s)"
    by simp
qed simp_all

text \<open>
  \<open>(s.match(/(.)\1{n,}/g) ?? []).length\<close>: a character other than a line terminator followed
  by at least \<open>n\<close> copies of itself, as many as there are.
\<close>

function count_repeat_bursts :: "nat \<Rightarrow> jsstring \<Rightarrow> nat" where
  "count_repeat_bursts n [] = 0"
| "count_repeat_bursts n (c # cs) =
     (if \<not> is_line_terminator c \<and> n \<le> length (takeWhile (\<lambda>x. x = c) cs)
      then 1 + count_repeat_bursts n (dropWhile (\<lambda>x. x = c) cs)
      else count_repeat_bursts n cs)"
  by pat_completeness auto
termination
  by (relation "measure (\<lambda>(n, s). length s)") (simp_all add: length_dropWhile_le less_Suc_eq_le)

definition evaluateQuality_pdf :: "jsstring \<Rightarrow> QualityAssessment" where
  "evaluateQuality_pdf text =
     (let normalized = filter (\<lambda>c. c \<noteq> 13) text;
          chars = max (length normalized) 1;
          lines = normalizedLines normalized;
          unreadableChars = count_char 65533 normalized;
          placeholderChars = count_char 9633 normalized;
          punctuationBlobs = count_class_runs (\<lambda>c. \<not> is_word c \<and> \<not> is_space c) 5 normalized;
          shortLineCount = length (filter (\<lambda>line. length line \<le> 2) lines);
          shortLineRate = (if length lines = 0 then 1 else real shortLineCount / real (length lines));
          markdownHeadingCount = length (filter is_heading lines);
          tableLineCount = length (filter is_table_line lines);
          veryLongTokenCount = count_class_runs (\<lambda>c. \<not> is_space c) 35 normalized;
          repeatedGlyphBurstCount = count_repeat_bursts 7 normalized;
          unreadableRate = real unreadableChars / real chars;
          placeholderRate = real placeholderChars / real chars;
          structureSignal = markdownHeadingCount + tableLineCount;
          s0 = 1;
          s1 = s0 - unreadableRate * 2.2;
          s2 = s1 - min 0.15 (placeholderRate * 0.6);
          s3 = s2 - shortLineRate * 0.45;
          s4 = s3 - min 0.25 (real punctuationBlobs * 0.03);
          s5 = s4 - min 0.2 (real veryLongTokenCount * 0.02);
          s6 = s5 - min 0.25 (real repeatedGlyphBurstCount * 0.04);
          s7 = (if length (trim normalized) < 120 then s6 - 0.25 else s6);
          s8 = (if structureSignal = 0 \<and> length lines > 40 then s7 - 0.06 else s7);
          s9 = max 0 (min 1 s8);
          rs = (if unreadableRate > 0.003 then [''High ratio of corrupted replacement characters''] else [])
             @ (if placeholderRate > 0.02 then [''Many unresolved glyph placeholders remain''] else [])
             @ (if shortLineRate > 0.35 then [''Too many fragmented short lines''] else [])
             @ (if punctuationBlobs > 3 then [''Potential OCR artifacts around symbols''] else [])
             @ (if veryLongTokenCount > 2
                then [''Unnaturally long tokens may indicate OCR merge errors''] else [])
             @ (if repeatedGlyphBurstCount > 1 then [''Repeated glyph bursts detected''] else [])
             @ (if length (trim normalized) < 120 then [''Output is unexpectedly short''] else [])
      in \<lparr>score = s9,
          reasons = (if length rs = 0 then [''Transcription quality is stable''] else rs)\<rparr>)"

definition evaluateQuality_image :: "jsstring \<Rightarrow> QualityAssessment" where
  "evaluateQuality_image text =
     (let normalized = filter (\<lambda>c. c \<noteq> 13) text;
          chars = max (length normalized) 1;
          lines = normalizedLines normalized;
          unreadableChars = count_char 65533 normalized;
          placeholderChars = count_char 9633 normalized;
          punctuationBlobs = count_class_runs (\<lambda>c. \<not> is_word c \<and> \<not> is_space c) 5 normalized;
          shortLineCount = length (filter (\<lambda>line. length line \<le> 2) lines);
          shortLineRate = (if length lines = 0 then 1 else real shortLineCount / real (length lines));
          markdownHeadingCount = length (filter is_heading lines);
          tableLineCount = length (filter is_table_line lines);
          veryLongTokenCount = count_class_runs (\<lambda>c. \<not> is_space c) 35 normalized;
          repeatedGlyphBurstCount = count_repeat_bursts 7 normalized;
          unreadableRate = real unreadableChars / real chars;
          placeholderRate = real placeholderChars / real chars;
          structureSignal = markdownHeadingCount + tableLineCount;
          s0 = 1;
          s1 = s0 - unreadableRate * 2.3;
          s2 = s1 - min 0.15 (placeholderRate * 0.65);
          s3 = s2 - shortLineRate * 0.4;
          s4 = s3 - min 0.25 (real punctuationBlobs * 0.03);
          s5 = s4 - min 0.2 (real veryLongTokenCount * 0.02);
          s6 = s5 - min 0.25 (real repeatedGlyphBurstCount * 0.04);
          s7 = (if length (trim normalized) < 80 then s6 - 0.2 else s6);
          s8 = (if structureSignal = 0 \<and> length lines > 30 then s7 - 0.06 else s7);
          s9 = max 0 (min 1 s8);
          rs = (if unreadableRate > 0.004 then [''Unreadable replacement character ratio is high''] else [])
             @ (if placeholderRate > 0.025 then [''Many unresolved glyph placeholders remain''] else [])
             @ (if shortLineRate > 0.4 then [''Fragmented line pattern detected''] else [])
             @ (if punctuationBlobs > 3 then [''Symbol artifacts detected''] else [])
             @ (if veryLongTokenCount > 2
                then [''Long token merges suggest OCR boundary errors''] else [])
             @ (if repeatedGlyphBurstCount > 1 then [''Repeated glyph bursts detected''] else [])
             @ (if length (trim normalized) < 80 then [''Chunk output is unexpectedly short''] else [])
      in \<lparr>score = s9,
          reasons = (if length rs = 0 then [''Chunk quality looks stable''] else rs)\<rparr>)"

section \<open>Verifier bridge (geminiService.ts and imageService.ts)\<close>

text \<open>
  \<open>JSON.parse\<close> is a built-in of the host language: it is a parameter of the model, a function
  from the text to the parsed value, \<open>None\<close> when it throws a SyntaxError. A JSON number is a
  finite double or, on overflow, an infinity; it is never NaN. The properties of an object are
  listed with distinct keys.
\<close>

datatype jsnum = Finite real | PosInf | NegInf

datatype json =
    JNull
  | JBool bool
  | JNum jsnum
  | JStr jsstring
  | JArr "json list"
  | JObj "(jsstring \<times> json) list"

datatype js_error = SyntaxError | TypeError

text \<open>\<open>Math.max(0, Math.min(1, x))\<close> on a number that is not NaN.\<close>

fun clamp01 :: "jsnum \<Rightarrow> real" where
  "clamp01 (Finite r) = max 0 (min 1 r)"
| "clamp01 PosInf = 1"
| "clamp01 NegInf = 0"

text \<open>The property name \<open>score\<close>.\<close>

definition score_key :: jsstring where
  "score_key = [115, 99, 111, 114, 101]"

text \<open>
  The body of \<open>tryParse\<close>'s \<open>try\<close> block: \<open>JSON.parse\<close> may throw, and reading \<open>.score\<close> of
  \<open>null\<close> throws a TypeError; every other value has no such property unless it is an object
  that holds it.
\<close>

definition tryParse_body :: "(jsstring \<Rightarrow> json option) \<Rightarrow> jsstring \<Rightarrow> js_error + real option" where
  "tryParse_body parse candidate =
     (case parse candidate of
        None \<Rightarrow> Inl SyntaxError
      | Some JNull \<Rightarrow> Inl TypeError
      | Some (JObj props) \<Rightarrow>
          (case map_of props score_key of
             Some (JNum x) \<Rightarrow> Inr (Some (clamp01 x))
           | _ \<Rightarrow> Inr None)
      | Some _ \<Rightarrow> Inr None)"

definition tryParse :: "(jsstring \<Rightarrow> json option) \<Rightarrow> jsstring \<Rightarrow> real option" where
  "tryParse parse candidate =
     (case tryParse_body parse candidate of Inl _ \<Rightarrow> None | Inr r \<Rightarrow> r)"

text \<open>\<open>s.replace(/^```json\s*/i, '')\<close>; the backquote is 96.\<close>

definition strip_json_fence :: "jsstring \<Rightarrow> jsstring" where
  "strip_json_fence s =
     (case s of
        b1 # b2 # b3 # cj # cs # co # cn # rest \<Rightarrow>
          (if b1 = 96 \<and> b2 = 96 \<and> b3 = 96 \<and> (cj = 106 \<or> cj = 74) \<and> (cs = 115 \<or> cs = 83)
              \<and> (co = 111 \<or> co = 79) \<and> (cn = 110 \<or> cn = 78)
           then dropWhile is_space rest else s)
      | _ \<Rightarrow> s)"

text \<open>\<open>s.replace(/^```\s*/i, '')\<close>.\<close>

definition strip_open_fence :: "jsstring \<Rightarrow> jsstring" where
  "strip_open_fence s =
     (case s of
        b1 # b2 # b3 # rest \<Rightarrow>
          (if b1 = 96 \<and> b2 = 96 \<and> b3 = 96 then dropWhile is_space rest else s)
      | _ \<Rightarrow> s)"

text \<open>\<open>s.replace(/```$/i, '')\<close>.\<close>

definition strip_close_fence :: "jsstring \<Rightarrow> jsstring" where
  "strip_close_fence s =
     (if 3 \<le> length s \<and> drop (length s - 3) s = [96, 96, 96] then take (length s - 3) s else s)"

text \<open>
  \<open>s.match(/\{[\s\S]*\}/)\<close>: from the first \<open>{\<close> (123) to the last \<open>}\<close> (125) behind it;
  no match when no \<open>}\<close> follows the first \<open>{\<close>.
\<close>

definition match_braces :: "jsstring \<Rightarrow> jsstring option" where
  "match_braces s =
     (let after = dropWhile (\<lambda>c. c \<noteq> 123) s in
      if 125 \<in> set after then Some (rev (dropWhile (\<lambda>c. c \<noteq> 125) (rev after))) else None)"

definition parseVerifierScore :: "(jsstring \<Rightarrow> json option) \<Rightarrow> jsstring \<Rightarrow> real option" where
  "parseVerifierScore parse raw =
     (let fenced = strip_close_fence (strip_open_fence (strip_json_fence (trim raw)));
          direct = tryParse parse fenced
      in if direct \<noteq> None then direct
         else (case match_braces fenced of
                 Some m \<Rightarrow> tryParse parse m
               | None \<Rightarrow> None))"

definition sampleForVerification :: "jsstring \<Rightarrow> jsstring" where
  "sampleForVerification text =
     (if length text \<le> QUALITY_VERIFIER_SAMPLE_CHARS then text
      else (let headSize = (QUALITY_VERIFIER_SAMPLE_CHARS * 6) div 10;
                tailSize = QUALITY_VERIFIER_SAMPLE_CHARS - headSize
            in slice 0 headSize text @ [10, 46, 46, 46, 10] @ slice_from (int (length text) - int tailSize) text))"

section \<open>The outside world of one request\<close>

text \<open>
  What a thrown value is to \<open>normalizeError\<close>: an \<open>Error\<close> with its message, or anything else.
\<close>

datatype js_thrown = ErrorObject jsstring | OtherValue

text \<open>
  The answer of the inference service to one request: the text (for a streamed answer, the
  concatenation of its fragments), or a failure of the call or of the stream.
\<close>

datatype reply = Reply jsstring | Failure js_thrown

text \<open>An inline media part of a request.\<close>

record PreparedImagePart =
  mimeType :: string
  data :: jsstring

text \<open>
  Everything one request takes from outside the two services. The prompt builders
  \<open>buildPdfPrompt\<close> and \<open>buildImagePrompt\<close> are taken as given functions to the prompt text;
  the canvas work of \<open>preprocessSpan\<close> is a function that gives the prepared parts or throws;
  \<open>generateContentStream\<close> answers a model, the media parts and a prompt;
  \<open>generateContent\<close> answers the verifier's request, of which the model, the profile and the
  sampled text vary; \<open>now_read\<close> and \<open>now_write\<close> are the values of \<open>Date.now()\<close> when the
  cache is read and when it is written; \<open>setItem_throws\<close> says whether the storage refuses
  a write.
\<close>

record ImageFile =
  preview :: jsstring
  base64 :: "jsstring option"

record env =
  JSON_parse :: "jsstring \<Rightarrow> json option"
  buildPdfPrompt :: "jsstring \<Rightarrow> OptimizationProfile \<Rightarrow> jsstring"
  buildImagePrompt :: "jsstring \<Rightarrow> OptimizationProfile \<Rightarrow> nat \<Rightarrow> nat \<Rightarrow> nat \<Rightarrow> jsstring \<Rightarrow> jsstring"
  preprocessSpan :: "ImageFile list \<Rightarrow> OptimizationProfile \<Rightarrow> js_thrown + PreparedImagePart list"
  generateContentStream :: "ModelType \<Rightarrow> PreparedImagePart list \<Rightarrow> jsstring \<Rightarrow> reply"
  generateContent :: "ModelType \<Rightarrow> OptimizationProfile \<Rightarrow> jsstring \<Rightarrow> reply"
  now_read :: int
  now_write :: int
  setItem_throws :: bool

definition modelForProfile :: "OptimizationProfile \<Rightarrow> ModelType option \<Rightarrow> ModelType" where
  "modelForProfile profile modelOverride =
     (case modelOverride of Some m \<Rightarrow> m | None \<Rightarrow> model (OCR_PROFILE_POLICIES profile))"

text \<open>
  \<open>runQualityVerifier\<close>: a text of fewer than 60 trimmed characters is scored 0 without a call;
  a failed call gives no opinion; an answer without text is read as the empty string, which
  the reply already is.
\<close>

definition runQualityVerifier ::
    "env \<Rightarrow> jsstring \<Rightarrow> OptimizationProfile \<Rightarrow> ModelType option \<Rightarrow> real option" where
  "runQualityVerifier e text profile modelOverride =
     (if length (trim text) < 60 then Some 0
      else (let sampled = sampleForVerification text in
            case generateContent e (modelForProfile profile modelOverride) profile sampled of
              Reply raw \<Rightarrow> parseVerifierScore (JSON_parse e) raw
            | Failure _ \<Rightarrow> None))"

section \<open>Events, output and cache of a run\<close>

datatype AnalysisEventType = CacheHit | ProfileStart | ProfileAccepted | ProfileEscalated | Completed

text \<open>
  A message is the template of the source with its arguments: literal text, a string taken
  from outside, a page number, or a score printed with two decimals (\<open>toFixed(2)\<close>).
\<close>

datatype msg_part = Lit string | Txt jsstring | Num nat | Fixed2 real

type_synonym message = "msg_part list"

record AnalysisEvent =
  eType :: AnalysisEventType
  eProfile :: OptimizationProfile
  eMessage :: message
  eQualityScore :: "real option"
  eReasons :: "string list option"
  eEstimatedInputTokens :: "nat option"
  eEstimatedOutputTokens :: "nat option"
  eVerificationScore :: "real option"

text \<open>An event with the three mandatory fields only.\<close>

definition event :: "AnalysisEventType \<Rightarrow> OptimizationProfile \<Rightarrow> message \<Rightarrow> AnalysisEvent" where
  "event t p m =
     \<lparr>eType = t, eProfile = p, eMessage = m, eQualityScore = None, eReasons = None,
      eEstimatedInputTokens = None, eEstimatedOutputTokens = None, eVerificationScore = None\<rparr>"

fun PROFILE_LABEL :: "OptimizationProfile \<Rightarrow> string" where
  "PROFILE_LABEL Economy = ''Economy''"
| "PROFILE_LABEL Balanced = ''Balanced''"
| "PROFILE_LABEL Accuracy = ''Accuracy''"

text \<open>
  What a run has done so far: the events given to the observer, the chunks yielded to the
  caller, the cache entries in the storage, and the calls of \<open>localStorage.setItem\<close>, each in
  order. The observer is taken not to throw. The storage holds entries as they were written
  (the JSON text of an entry is identified with the entry).
\<close>

record 'e run =
  events :: "AnalysisEvent list"
  chunks :: "jsstring list"
  storage :: "jsstring \<rightharpoonup> 'e"
  setItemCalls :: "(jsstring \<times> 'e) list"

definition emit :: "AnalysisEvent \<Rightarrow> 'e run \<Rightarrow> 'e run" where
  "emit ev st = st\<lparr>events := events st @ [ev]\<rparr>"

definition yield_all :: "jsstring list \<Rightarrow> 'e run \<Rightarrow> 'e run" where
  "yield_all cs st = st\<lparr>chunks := chunks st @ cs\<rparr>"

text \<open>How a generator ends: it returns, or it throws an error with a message.\<close>

datatype outcome = Returned | Thrown message

text \<open>\<open>writePdfCache\<close> and \<open>writeImageCache\<close>: a refused write is ignored.\<close>

definition writeCache :: "env \<Rightarrow> jsstring \<Rightarrow> 'e \<Rightarrow> 'e run \<Rightarrow> 'e run" where
  "writeCache e cacheKey entry st =
     st\<lparr>storage := (if setItem_throws e then storage st else (storage st)(cacheKey \<mapsto> entry)),
        setItemCalls := setItemCalls st @ [(cacheKey, entry)]\<rparr>"

definition estimateTextTokens :: "jsstring \<Rightarrow> nat" where
  "estimateTextTokens text = (length text + 3) div 4"

text \<open>\<open>Math.max(1, Math.ceil(base64.length * 0.75 / 1024))\<close>.\<close>

definition estimateInlineDataTokens :: "jsstring \<Rightarrow> nat" where
  "estimateInlineDataTokens b = max 1 ((length b * 3 + 4095) div 4096)"

function createTextStream_from :: "jsstring \<Rightarrow> nat \<Rightarrow> jsstring list" where
  "createTextStream_from text cursor =
     (if cursor < length text
      then slice cursor (cursor + OUTPUT_STREAM_CHUNK_SIZE) text
           # createTextStream_from text (cursor + OUTPUT_STREAM_CHUNK_SIZE)
      else [])"
  by pat_completeness auto
termination
  by (relation "measure (\<lambda>(text, cursor). length text - cursor)")
     (simp_all add: OUTPUT_STREAM_CHUNK_SIZE_def)

declare createTextStream_from.simps [simp del]

definition createTextStream :: "jsstring \<Rightarrow> jsstring list" where
  "createTextStream text = createTextStream_from text 0"

section \<open>PDF analysis (geminiService.ts)\<close>

text \<open>The fields \<open>text\<close> and \<open>profile\<close> of an entry are named \<open>entryText\<close> and \<open>entryProfile\<close>.\<close>

record PdfCacheEntry =
  createdAt :: int
  entryText :: jsstring
  entryProfile :: OptimizationProfile
  quality :: real

text \<open>
  The arguments of \<open>analyzePdfStream\<close>, with the key that \<open>buildPdfCacheKey\<close> computes for
  them; the hashing behind the key is not modelled.
\<close>

record pdf_request =
  pdfBase64 :: jsstring
  prompt :: jsstring
  modelId :: "ModelType option"
  cacheKey :: jsstring


definition requiredPdfScore :: "OptimizationProfile \<Rightarrow> real" where
  "requiredPdfScore p =
     (if p = Accuracy then 0
      else max PDF_ESCALATION_THRESHOLD (minQualityScore (OCR_PROFILE_POLICIES p) - 0.1))"

definition runPdfAttemptStream :: "env \<Rightarrow> pdf_request \<Rightarrow> OptimizationProfile \<Rightarrow> reply" where
  "runPdfAttemptStream e rq p =
     generateContentStream e (modelForProfile p (modelId rq))
       [\<lparr>mimeType = ''application/pdf'', data = pdfBase64 rq\<rparr>]
       (buildPdfPrompt e (prompt rq) p)"

definition normalizeError :: "js_thrown \<Rightarrow> message" where
  "normalizeError err =
     (case err of
        ErrorObject msg \<Rightarrow> [Lit ''Analysis failed: '', Txt msg]
      | OtherValue \<Rightarrow> [Lit ''An unexpected error occurred during analysis.''])"

text \<open>
  How one iteration of the loop over the candidate profiles ends; \<open>attempt_state\<close> is the
  state of the run behind it.
\<close>

datatype 'e attempt =
    AttemptAccepted (attempt_state: "'e run")
  | AttemptEscalated (attempt_state: "'e run")
  | AttemptThrown (attempt_state: "'e run") message

text \<open>The body of the loop of \<open>analyzePdfStream\<close> for one profile.\<close>

definition pdfAttempt ::
    "env \<Rightarrow> pdf_request \<Rightarrow> OptimizationProfile \<Rightarrow> bool \<Rightarrow> PdfCacheEntry run \<Rightarrow> PdfCacheEntry attempt" where
  "pdfAttempt e rq p isLastProfile st =
     (let promptForAttempt = buildPdfPrompt e (prompt rq) p;
          estimatedInputTokens =
            estimateInlineDataTokens (pdfBase64 rq) + estimateTextTokens promptForAttempt;
          st1 = emit ((event ProfileStart p [Lit (''Running '' @ PROFILE_LABEL p @ '' profile...'')])
                        \<lparr>eEstimatedInputTokens := Some estimatedInputTokens\<rparr>) st
      in case runPdfAttemptStream e rq p of
           Failure err \<Rightarrow>
             if isLastProfile then AttemptThrown st1 (normalizeError err)
             else AttemptEscalated
                    (emit (event ProfileEscalated p
                             [Lit (''Failed to start '' @ PROFILE_LABEL p @ ''; escalating automatically.'')])
                       st1)
         | Reply txt \<Rightarrow>
             (let assessment = evaluateQuality_pdf txt;
                  requiredScore = requiredPdfScore p;
                  needsVerifier = score assessment < requiredScore + 0.12;
                  verifierScore =
                    (if needsVerifier then runQualityVerifier e txt p (modelId rq) else None);
                  qualityScore =
                    (case verifierScore of
                       None \<Rightarrow> score assessment
                     | Some v \<Rightarrow> score assessment * 0.78 + v * 0.22);
                  accepted = (qualityScore \<ge> requiredScore \<or> isLastProfile);
                  estimatedOutputTokens = estimateTextTokens txt
              in if \<not> accepted then
                   AttemptEscalated
                     (emit ((event ProfileEscalated p
                               [Lit ''Quality signal is low ('', Fixed2 qualityScore,
                                Lit ''). Escalating automatically.''])
                             \<lparr>eQualityScore := Some qualityScore,
                              eReasons := Some (reasons assessment),
                              eEstimatedInputTokens := Some estimatedInputTokens,
                              eEstimatedOutputTokens := Some estimatedOutputTokens,
                              eVerificationScore := verifierScore\<rparr>) st1)
                 else
                   AttemptAccepted
                     (emit ((event Completed p
                               [Lit (''Completed with '' @ PROFILE_LABEL p @ '' profile.'')])
                             \<lparr>eQualityScore := Some qualityScore,
                              eReasons := Some (reasons assessment),
                              eEstimatedInputTokens := Some estimatedInputTokens,
                              eEstimatedOutputTokens := Some estimatedOutputTokens,
                              eVerificationScore := verifierScore\<rparr>)
                       (yield_all (createTextStream txt)
                         (emit ((event ProfileAccepted p
                                   [Lit (''Accepted '' @ PROFILE_LABEL p @ '' profile.'')])
                                 \<lparr>eQualityScore := Some qualityScore,
                                  eReasons := Some (reasons assessment),
                                  eEstimatedInputTokens := Some estimatedInputTokens,
                                  eEstimatedOutputTokens := Some estimatedOutputTokens,
                                  eVerificationScore := verifierScore\<rparr>)
                           (writeCache e (cacheKey rq)
                              \<lparr>createdAt = now_write e, entryText = txt, entryProfile = p,
                               quality = qualityScore\<rparr> st1))))))"

text \<open>
  The loop of the generator of \<open>analyzePdfStream\<close>, from \<open>index\<close> on: an accepted attempt
  ends the generator, an escalated one goes on with the next index, a failure at the last
  profile is thrown; behind the last index the generator returns.
\<close>

function pdfLoop ::
    "env \<Rightarrow> pdf_request \<Rightarrow> OptimizationProfile list \<Rightarrow> nat \<Rightarrow> PdfCacheEntry run
      \<Rightarrow> PdfCacheEntry run \<times> outcome" where
  "pdfLoop e rq candidateProfiles index st =
     (if index < length candidateProfiles then
        (case pdfAttempt e rq (candidateProfiles ! index)
                (index = length candidateProfiles - 1) st of
           AttemptAccepted st' \<Rightarrow> (st', Returned)
         | AttemptEscalated st' \<Rightarrow> pdfLoop e rq candidateProfiles (index + 1) st'
         | AttemptThrown st' msg \<Rightarrow> (st', Thrown msg))
      else (st, Returned))"
  by pat_completeness auto
termination
  by (relation "measure (\<lambda>(e, rq, cands, index, st). length cands - index)") simp_all

declare pdfLoop.simps [simp del]


section \<open>Image sequence analysis (imageService.ts)\<close>

text \<open>
  The fields of a cache entry and of a span resolution carry a prefix (\<open>img\<close>, \<open>r\<close>) in front
  of their names in the source.
\<close>

record ImageCacheEntry =
  imgCreatedAt :: int
  imgText :: jsstring
  imgHighestProfile :: OptimizationProfile
  imgQuality :: real

record SpanResolution =
  rText :: jsstring
  rProfile :: OptimizationProfile
  rAssessment :: QualityAssessment
  rQualityScore :: real
  rConsumed :: nat
  rEstimatedInputTokens :: nat
  rEstimatedOutputTokens :: nat
  rVerificationScore :: "real option"

text \<open>
  The arguments of \<open>analyzeImageSequenceStream\<close>, with the key that \<open>buildImageCacheKey\<close>
  computes for them.
\<close>

record image_request =
  images :: "ImageFile list"
  imagePrompt :: jsstring
  imageModelId :: "ModelType option"
  imageCacheKey :: jsstring

definition resolveImageCandidateProfiles :: "ModelType option \<Rightarrow> OptimizationProfile list" where
  "resolveImageCandidateProfiles modelOverride =
     (if modelOverride = Some PRO then [Accuracy]
      else if modelOverride = Some FLASH then [Economy, Balanced]
      else OCR_PROFILE_ORDER)"

definition readImageCache ::
    "env \<Rightarrow> jsstring \<Rightarrow> ImageCacheEntry run \<Rightarrow> ImageCacheEntry option \<times> ImageCacheEntry run" where
  "readImageCache e key st =
     (case storage st key of
        None \<Rightarrow> (None, st)
      | Some parsed \<Rightarrow>
          if imgCreatedAt parsed = 0 \<or> now_read e - imgCreatedAt parsed > OCR_CACHE_TTL_MS
          then (None, st\<lparr>storage := (storage st)(key := None)\<rparr>)
          else (Some parsed, st))"

definition maxProfile :: "OptimizationProfile \<Rightarrow> OptimizationProfile \<Rightarrow> OptimizationProfile" where
  "maxProfile current next =
     (if indexOf OCR_PROFILE_ORDER next > indexOf OCR_PROFILE_ORDER current then next else current)"

definition runSpanAttempt ::
    "env \<Rightarrow> PreparedImagePart list \<Rightarrow> jsstring \<Rightarrow> OptimizationProfile \<Rightarrow> ModelType option \<Rightarrow> reply" where
  "runSpanAttempt e preparedImages composedPrompt p modelOverride =
     generateContentStream e (modelForProfile p modelOverride) preparedImages composedPrompt"

definition normalizeSpanError :: "js_thrown \<Rightarrow> message" where
  "normalizeSpanError err =
     (case err of
        ErrorObject msg \<Rightarrow> [Lit ''Image sequence analysis failed: '', Txt msg]
      | OtherValue \<Rightarrow> [Lit ''Image sequence analysis failed unexpectedly.''])"

datatype span_attempt =
    SpanAccepted (span_state: "ImageCacheEntry run") SpanResolution
  | SpanEscalated (span_state: "ImageCacheEntry run")
  | SpanThrown (span_state: "ImageCacheEntry run") message

text \<open>
  The scoring and the decision of one span attempt, once the text is there (the rest of the
  \<open>try\<close> block of \<open>resolveSpanWithEscalation\<close>).
\<close>

definition spanDecide ::
    "env \<Rightarrow> image_request \<Rightarrow> nat \<Rightarrow> nat \<Rightarrow> nat \<Rightarrow> OptimizationProfile \<Rightarrow> bool \<Rightarrow> nat \<Rightarrow> jsstring
      \<Rightarrow> ImageCacheEntry run \<Rightarrow> span_attempt" where
  "spanDecide e rq startPage endPage spanLength p isLastProfile estimatedInputTokens txt st1 =
     (let assessment = evaluateQuality_image txt;
          requiredScore = minQualityScore (OCR_PROFILE_POLICIES p);
          needsVerifier = score assessment < requiredScore + 0.1;
          verifierScore =
            (if needsVerifier then runQualityVerifier e txt p (imageModelId rq) else None);
          qualityScore =
            (case verifierScore of
               None \<Rightarrow> score assessment
             | Some v \<Rightarrow> score assessment * 0.78 + v * 0.22);
          accepted = (qualityScore \<ge> requiredScore \<or> isLastProfile);
          estimatedOutputTokens = estimateTextTokens txt
      in if accepted then
           SpanAccepted
             (emit ((event ProfileAccepted p
                       [Lit ''Pages '', Num startPage, Lit ''-'', Num endPage,
                        Lit ('': accepted '' @ PROFILE_LABEL p @ ''.'')])
                     \<lparr>eQualityScore := Some qualityScore,
                      eReasons := Some (reasons assessment),
                      eEstimatedInputTokens := Some estimatedInputTokens,
                      eEstimatedOutputTokens := Some estimatedOutputTokens,
                      eVerificationScore := verifierScore\<rparr>) st1)
             \<lparr>rText = txt, rProfile = p, rAssessment = assessment, rQualityScore = qualityScore,
              rConsumed = spanLength, rEstimatedInputTokens = estimatedInputTokens,
              rEstimatedOutputTokens = estimatedOutputTokens, rVerificationScore = verifierScore\<rparr>
         else
           SpanEscalated
             (emit ((event ProfileEscalated p
                       [Lit ''Pages '', Num startPage, Lit ''-'', Num endPage,
                        Lit ('': escalating from '' @ PROFILE_LABEL p @ ''.'')])
                     \<lparr>eQualityScore := Some qualityScore,
                      eReasons := Some (reasons assessment),
                      eEstimatedInputTokens := Some estimatedInputTokens,
                      eEstimatedOutputTokens := Some estimatedOutputTokens,
                      eVerificationScore := verifierScore\<rparr>) st1))"

text \<open>The \<open>catch\<close> block of \<open>resolveSpanWithEscalation\<close>.\<close>

definition spanCatch ::
    "nat \<Rightarrow> nat \<Rightarrow> OptimizationProfile \<Rightarrow> bool \<Rightarrow> js_thrown \<Rightarrow> ImageCacheEntry run \<Rightarrow> span_attempt" where
  "spanCatch startPage endPage p isLastProfile err st1 =
     (if isLastProfile then SpanThrown st1 (normalizeSpanError err)
      else SpanEscalated
             (emit (event ProfileEscalated p
                      [Lit ''Pages '', Num startPage, Lit ''-'', Num endPage,
                       Lit ('': '' @ PROFILE_LABEL p @ '' failed, escalating automatically.'')])
                st1))"

text \<open>
  The body of the loop of \<open>resolveSpanWithEscalation\<close> for one profile; \<open>spanImages\<close> is
  the variable \<open>span\<close> of the source.
\<close>

definition spanAttempt ::
    "env \<Rightarrow> image_request \<Rightarrow> jsstring \<Rightarrow> nat \<Rightarrow> ImageFile list \<Rightarrow> OptimizationProfile \<Rightarrow> bool
      \<Rightarrow> ImageCacheEntry run \<Rightarrow> span_attempt" where
  "spanAttempt e rq carryContext startIndex spanImages p isLastProfile st =
     (let totalPages = length (images rq);
          startPage = startIndex + 1;
          endPage = startIndex + length spanImages;
          composedPrompt = buildImagePrompt e (imagePrompt rq) p startPage endPage totalPages carryContext;
          estimatedPromptTokens = estimateTextTokens composedPrompt;
          st1 = emit ((event ProfileStart p
                         [Lit ''Pages '', Num startPage, Lit ''-'', Num endPage,
                          Lit ('': running '' @ PROFILE_LABEL p @ '' profile...'')])
                       \<lparr>eEstimatedInputTokens :=
                          Some (estimatedPromptTokens
                                + sum_list (map (\<lambda>img. estimateInlineDataTokens
                                                   (case base64 img of None \<Rightarrow> [] | Some b \<Rightarrow> b)) spanImages))\<rparr>)
                  st
      in case preprocessSpan e spanImages p of
           Inl err \<Rightarrow> spanCatch startPage endPage p isLastProfile err st1
         | Inr prepared \<Rightarrow>
             (let estimatedImageTokens =
                    sum_list (map (\<lambda>img. estimateInlineDataTokens (data img)) prepared);
                  estimatedInputTokens = estimatedImageTokens + estimatedPromptTokens
              in case runSpanAttempt e prepared composedPrompt p (imageModelId rq) of
                   Failure err \<Rightarrow> spanCatch startPage endPage p isLastProfile err st1
                 | Reply txt \<Rightarrow>
                     spanDecide e rq startPage endPage (length spanImages) p isLastProfile
                       estimatedInputTokens txt st1))"

function spanLoop ::
    "env \<Rightarrow> image_request \<Rightarrow> jsstring \<Rightarrow> nat \<Rightarrow> ImageFile list \<Rightarrow> OptimizationProfile list \<Rightarrow> nat
      \<Rightarrow> ImageCacheEntry run \<Rightarrow> ImageCacheEntry run \<times> (message + SpanResolution)" where
  "spanLoop e rq carryContext startIndex spanImages candidateProfiles i st =
     (if i < length candidateProfiles then
        (case spanAttempt e rq carryContext startIndex spanImages (candidateProfiles ! i)
                (i = length candidateProfiles - 1) st of
           SpanAccepted st' resolved \<Rightarrow> (st', Inr resolved)
         | SpanEscalated st' \<Rightarrow> spanLoop e rq carryContext startIndex spanImages candidateProfiles (i + 1) st'
         | SpanThrown st' msg \<Rightarrow> (st', Inl msg))
      else (st, Inl [Lit ''Could not resolve span with available profiles.'']))"
  by pat_completeness auto
termination
  by (relation "measure (\<lambda>(e, rq, cc, si, sp, cands, i, st). length cands - i)") simp_all

declare spanLoop.simps [simp del]

definition resolveSpanWithEscalation ::
    "env \<Rightarrow> image_request \<Rightarrow> jsstring \<Rightarrow> nat \<Rightarrow> OptimizationProfile list \<Rightarrow> ImageCacheEntry run
      \<Rightarrow> ImageCacheEntry run \<times> (message + SpanResolution)" where
  "resolveSpanWithEscalation e rq carryContext startIndex candidateProfiles st =
     (let baseChunkSize = 1;
          spanImages = slice startIndex (startIndex + baseChunkSize) (images rq)
      in if length spanImages = 0 then (st, Inl [Lit ''No images left to process.''])
         else spanLoop e rq carryContext startIndex spanImages candidateProfiles 0 st)"

text \<open>
  A resolved span has consumed the images of the span, of which there is at least one; the
  loop over the spans ends for that reason.
\<close>

lemma spanLoop_consumed:
  "spanLoop e rq cc si sp cands i st = (st', Inr r) \<Longrightarrow> rConsumed r = length sp"
proof (induction e rq cc si sp cands i st rule: spanLoop.induct)
  case (1 e rq cc si sp cands i st)
  note unfold = spanLoop.simps [of e rq cc si sp cands i st]
  show ?case
  proof (cases "i < length cands")
    case False
    with "1.prems" unfold show ?thesis by simp
  next
    case True
    show ?thesis
    proof (cases "spanAttempt e rq cc si sp (cands ! i) (i = length cands - 1) st")
      case (SpanAccepted st1 r1)
      with True "1.prems" unfold have "r1 = r" by simp
      with SpanAccepted show ?thesis
        by (auto simp: spanAttempt_def spanDecide_def spanCatch_def Let_def
            split: sum.splits reply.splits if_splits)
    next
      case (SpanEscalated st1)
      with True "1.prems" unfold have "spanLoop e rq cc si sp cands (i + 1) st1 = (st', Inr r)"
        by simp
      with True SpanEscalated "1.IH" show ?thesis by simp
    next
      case (SpanThrown st1 m)
      with True "1.prems" unfold show ?thesis by simp
    qed
  qed
qed

lemma resolveSpan_consumed:
  assumes "resolveSpanWithEscalation e rq cc si cands st = (st', Inr r)"
  shows "0 < rConsumed r"
proof (cases "slice si (si + 1) (images rq) = []")
  case True
  with assms show ?thesis by (simp add: resolveSpanWithEscalation_def Let_def)
next
  case False
  with assms have "spanLoop e rq cc si (slice si (si + 1) (images rq)) cands 0 st = (st', Inr r)"
    by (simp add: resolveSpanWithEscalation_def Let_def)
  then have "rConsumed r = length (slice si (si + 1) (images rq))"
    by (rule spanLoop_consumed)
  with False show ?thesis by simp
qed

text \<open>
  The loop of the generator of \<open>analyzeImageSequenceStream\<close> with its local variables
  (\<open>minScore\<close> is the variable \<open>minQualityScore\<close> of the source), and what follows the loop:
  the quality of an empty output, the cache write and the last event.
\<close>

function imageLoop ::
    "env \<Rightarrow> image_request \<Rightarrow> OptimizationProfile list \<Rightarrow> nat \<Rightarrow> jsstring \<Rightarrow> jsstring
      \<Rightarrow> OptimizationProfile \<Rightarrow> real \<Rightarrow> nat \<Rightarrow> nat \<Rightarrow> ImageCacheEntry run
      \<Rightarrow> ImageCacheEntry run \<times> outcome" where
  "imageLoop e rq candidateProfiles cursor carryContext accumulated highestProfile minScore
       totalEstimatedInputTokens totalEstimatedOutputTokens st =
     (if cursor < length (images rq) then
        (case resolveSpanWithEscalation e rq carryContext cursor candidateProfiles st of
           (st', Inl msg) \<Rightarrow> (st', Thrown msg)
         | (st', Inr resolved) \<Rightarrow>
             (let normalized = trim (rText resolved);
                  appendText = (if normalized \<noteq> []
                                then (if accumulated \<noteq> [] then [10, 10] @ normalized else normalized)
                                else [])
              in imageLoop e rq candidateProfiles
                   (cursor + rConsumed resolved)
                   (extractCarryContext normalized
                      (carryContextChars (OCR_PROFILE_POLICIES (rProfile resolved))))
                   (if appendText \<noteq> [] then accumulated @ appendText else accumulated)
                   (maxProfile highestProfile (rProfile resolved))
                   (min minScore (rQualityScore resolved))
                   (totalEstimatedInputTokens + rEstimatedInputTokens resolved)
                   (totalEstimatedOutputTokens + rEstimatedOutputTokens resolved)
                   (if appendText \<noteq> [] then yield_all [appendText] st' else st')))
      else
        (let minScore' = (if accumulated = [] then 0 else minScore) in
         (emit ((event Completed highestProfile
                   [Lit (''Completed image sequence with max profile ''
                         @ PROFILE_LABEL highestProfile @ ''.'')])
                 \<lparr>eQualityScore := Some minScore',
                  eEstimatedInputTokens := Some totalEstimatedInputTokens,
                  eEstimatedOutputTokens := Some totalEstimatedOutputTokens\<rparr>)
            (writeCache e (imageCacheKey rq)
               \<lparr>imgCreatedAt = now_write e, imgText = accumulated,
                imgHighestProfile = highestProfile, imgQuality = minScore'\<rparr> st),
          Returned)))"
  by pat_completeness auto
termination
  by (relation "measure (\<lambda>(e, rq, cands, cursor, rest). length (images rq) - cursor)")
     (auto dest: resolveSpan_consumed [OF sym])

declare imageLoop.simps [simp del]

definition analyzeImageSequenceStream ::
    "env \<Rightarrow> image_request \<Rightarrow> ImageCacheEntry run \<Rightarrow> ImageCacheEntry run \<times> outcome" where
  "analyzeImageSequenceStream e rq st0 =
     (case readImageCache e (imageCacheKey rq) st0 of
        (Some cached, st) \<Rightarrow>
          (let estimatedOutputTokens = estimateTextTokens (imgText cached) in
           (yield_all (createTextStream (imgText cached))
              (emit ((event Completed (imgHighestProfile cached) [Lit ''Completed with cached result.''])
                      \<lparr>eQualityScore := Some (imgQuality cached),
                       eEstimatedOutputTokens := Some estimatedOutputTokens\<rparr>)
                 (emit ((event CacheHit (imgHighestProfile cached)
                           [Lit (''Cache hit: reused sequence result (''
                                 @ PROFILE_LABEL (imgHighestProfile cached) @ '' max profile).'')])
                         \<lparr>eQualityScore := Some (imgQuality cached),
                          eEstimatedOutputTokens := Some estimatedOutputTokens\<rparr>) st)),
            Returned))
      | (None, st) \<Rightarrow>
          (let candidateProfiles = resolveImageCandidateProfiles (imageModelId rq) in
           imageLoop e rq candidateProfiles 0 [] []
             (case candidateProfiles of [] \<Rightarrow> Economy | p # _ \<Rightarrow> p) 1 0 0 st))"

section \<open>Observations of a run\<close>

text \<open>The number of profile-accepted events among the events of a run.\<close>

definition accepted_count :: "'e run \<Rightarrow> nat" where
  "accepted_count st = length (filter (\<lambda>ev. eType ev = ProfileAccepted) (events st))"

text \<open>The chunks that a run has yielded beyond those of an earlier state.\<close>

definition new_chunks :: "'e run \<Rightarrow> 'e run \<Rightarrow> jsstring list" where
  "new_chunks st st' = drop (length (chunks st)) (chunks st')"

text \<open>
  The cache entry of a finished image sequence with the output \<open>acc\<close>, and what the end of
  such a run leaves behind a state \<open>st\<close>: one more call of \<open>setItem\<close>, with that entry under
  the key of the request, the entry in the storage unless the write was refused, and the
  completed event with the entry's profile and quality as the last event.
\<close>

definition sequence_entry :: "env \<Rightarrow> jsstring \<Rightarrow> OptimizationProfile \<Rightarrow> real \<Rightarrow> ImageCacheEntry" where
  "sequence_entry e acc hp mq =
     \<lparr>imgCreatedAt = now_write e, imgText = acc, imgHighestProfile = hp,
      imgQuality = (if acc = [] then 0 else mq)\<rparr>"

definition sequence_written ::
    "env \<Rightarrow> image_request \<Rightarrow> ImageCacheEntry \<Rightarrow> ImageCacheEntry run \<Rightarrow> ImageCacheEntry run \<Rightarrow> bool" where
  "sequence_written e rq entry st st' \<longleftrightarrow>
     setItemCalls st' = setItemCalls st @ [(imageCacheKey rq, entry)]
     \<and> storage st' = (if setItem_throws e then storage st
                       else (storage st)(imageCacheKey rq \<mapsto> entry))
     \<and> eType (last (events st')) = Completed
     \<and> eProfile (last (events st')) = imgHighestProfile entry
     \<and> eQualityScore (last (events st')) = Some (imgQuality entry)"

text \<open>
  The specification's wording of the chunks of a live image sequence run: the trimmed text of
  each accepted span in turn, left out when it is empty, and behind a blank line when there
  is output already (\<open>acc\<close> is the output so far).
\<close>

fun span_chunks :: "jsstring \<Rightarrow> jsstring list \<Rightarrow> jsstring list" where
  "span_chunks acc [] = []"
| "span_chunks acc (t # ts) =
     (if trim t = [] then span_chunks acc ts
      else if acc = [] then trim t # span_chunks (trim t) ts
      else ([10, 10] @ trim t) # span_chunks (acc @ [10, 10] @ trim t) ts)"

section \<open>Example inputs\<close>

text \<open>
  A run that has done nothing yet, and an outside world for examples: \<open>JSON.parse\<close> reads the
  text \<open>{"score":1}\<close> as that object and rejects every other text, a prompt is the user's
  prompt, preprocessing gives one PNG part per image, the service answers a request with its
  prompt text, and the verifier's service answers \<open>{"score":1}\<close>.
\<close>

definition empty_run :: "'e run" where
  "empty_run = \<lparr>events = [], chunks = [], storage = Map.empty, setItemCalls = []\<rparr>"

definition score_one_json :: jsstring where
  "score_one_json = [123, 34, 115, 99, 111, 114, 101, 34, 58, 49, 125]"

definition example_env :: env where
  "example_env =
     \<lparr>JSON_parse = (\<lambda>s. if s = score_one_json
                          then Some (JObj [(score_key, JNum (Finite 1))]) else None),
      buildPdfPrompt = (\<lambda>userPrompt p. userPrompt),
      buildImagePrompt = (\<lambda>userPrompt p startPage endPage totalPages carry. userPrompt),
      preprocessSpan = (\<lambda>imgs p. Inr (map (\<lambda>img. \<lparr>mimeType = ''image/png'', data = preview img\<rparr>) imgs)),
      generateContentStream = (\<lambda>m parts userPrompt. Reply userPrompt),
      generateContent = (\<lambda>m p sampled. Reply score_one_json),
      now_read = 1000, now_write = 2000, setItem_throws = False\<rparr>"

text \<open>The same world with a service whose every call fails.\<close>

definition failing_env :: env where
  "failing_env =
     example_env\<lparr>generateContentStream := (\<lambda>m parts userPrompt. Failure (ErrorObject [120]))\<rparr>"

text \<open>A request for a small PDF whose prompt, and so the answer of the example world, is \<open>t\<close>.\<close>

definition pdf_example :: "jsstring \<Rightarrow> ModelType option \<Rightarrow> pdf_request" where
  "pdf_example t ov = \<lparr>pdfBase64 = [65, 65, 65, 65], prompt = t, modelId = ov, cacheKey = [107]\<rparr>"

text \<open>A request for one image, with prompt and answer \<open>t\<close>.\<close>

definition image_example :: "jsstring \<Rightarrow> ModelType option \<Rightarrow> image_request" where
  "image_example t ov =
     \<lparr>images = [\<lparr>preview = [65], base64 = Some [65]\<rparr>], imagePrompt = t, imageModelId = ov,
      imageCacheKey = [107]\<rparr>"

section \<open>Candidate profile selection\<close>




section \<open>Carry-context extractor\<close>

lemma indexOf_in: "x \<in> set xs \<Longrightarrow> 0 \<le> indexOf xs x \<and> indexOf xs x < int (length xs)"
  by (induction xs) (auto simp: Let_def)

lemma indexOf_append_in: "x \<in> set pre \<Longrightarrow> indexOf (pre @ ys) x = indexOf pre x"
proof (induction pre)
  case Nil
  then show ?case by simp
next
  case (Cons a pre)
  then show ?case using indexOf_in [of x pre] by (auto simp: Let_def)
qed

lemma indexOf_append_first: "x \<notin> set pre \<Longrightarrow> indexOf (pre @ x # ys) x = int (length pre)"
  by (induction pre) (auto simp: Let_def)

lemma keep_first_occurrences_cong:
  "set seen = set seen' \<Longrightarrow> keep_first_occurrences seen xs = keep_first_occurrences seen' xs"
proof (induction xs arbitrary: seen seen')
  case Nil
  show ?case by simp
next
  case (Cons x xs)
  have mem: "x \<in> set seen \<longleftrightarrow> x \<in> set seen'"
    using Cons.prems by simp
  have "set (x # seen) = set (x # seen')"
    using Cons.prems by simp
  then have "keep_first_occurrences (x # seen) xs = keep_first_occurrences (x # seen') xs"
    by (rule Cons.IH)
  moreover have "keep_first_occurrences seen xs = keep_first_occurrences seen' xs"
    using Cons.prems by (rule Cons.IH)
  ultimately show ?case
    using mem by simp
qed

lemma dedup_gen:
  "map fst (filter (\<lambda>(line, idx). indexOf (pre @ xs) line = int idx)
                     (zip xs [length pre ..< length pre + length xs]))
   = keep_first_occurrences pre xs"
proof (induction xs arbitrary: pre)
  case Nil
  then show ?case by simp
next
  case (Cons x xs)
  have upt: "[length pre ..< length pre + length (x # xs)]
      = length pre # [length (pre @ [x]) ..< length (pre @ [x]) + length xs]"
    by (auto simp: upt_rec [of "length pre"] Suc_le_eq)
  have ih: "map fst (filter (\<lambda>(line, idx). indexOf (pre @ x # xs) line = int idx)
                     (zip xs [length (pre @ [x]) ..< length (pre @ [x]) + length xs]))
       = keep_first_occurrences (pre @ [x]) xs"
    using Cons.IH [of "pre @ [x]"] by simp
  have kf: "keep_first_occurrences (pre @ [x]) xs = keep_first_occurrences (x # pre) xs"
    by (rule keep_first_occurrences_cong) simp
  show ?case
  proof (cases "x \<in> set pre")
    case True
    then have lt: "indexOf (pre @ x # xs) x < int (length pre)"
      using indexOf_in [of x pre] by (simp add: indexOf_append_in)
    have kf': "keep_first_occurrences (pre @ [x]) xs = keep_first_occurrences pre xs"
      by (rule keep_first_occurrences_cong) (use True in auto)
    show ?thesis
      unfolding upt using ih kf' True lt by simp
  next
    case False
    then show ?thesis
      unfolding upt using ih kf by (simp add: indexOf_append_first)
  qed
qed

lemma carry_deduped_eq: "carry_deduped merged = keep_first_occurrences [] merged"
  using dedup_gen [of "[]" merged] by (simp add: carry_deduped_def)

lemma length_slice_from_tail:
  "0 \<le> n \<Longrightarrow> n < int (length xs) \<Longrightarrow> slice_from (int (length xs) - n) xs = drop (length xs - nat n) xs"
  by (simp add: slice_from_def Let_def nat_diff_distrib')

text \<open>
  Claim C8. For every text and every budget \<open>N \<ge> 0\<close> the carry context has at most \<open>N\<close>
  characters. It is the newline-joined list of the last three heading lines, the last three
  table lines and the last four lines, each line kept at its first occurrence only; when that
  is longer than \<open>N\<close>, only its last \<open>N\<close> characters are kept.
\<close>

theorem extractCarryContext_budget:
  assumes "0 \<le> N"
  shows "int (length (extractCarryContext text N)) \<le> N
    \<and> extractCarryContext text N =
        (if int (length (spec_carry_joined text)) \<le> N then spec_carry_joined text
         else drop (length (spec_carry_joined text) - nat N) (spec_carry_joined text))"
proof -
  let ?j = "spec_carry_joined text"
  have eq: "extractCarryContext text N =
      (if int (length ?j) \<le> N then ?j else slice_from (int (length ?j) - N) ?j)"
    by (simp add: extractCarryContext_def spec_carry_joined_def carry_merged_def
        carry_deduped_eq Let_def)
  show ?thesis
  proof (cases "int (length ?j) \<le> N")
    case True
    then show ?thesis using eq by simp
  next
    case False
    then have "N < int (length ?j)" by simp
    then have "slice_from (int (length ?j) - N) ?j = drop (length ?j - nat N) ?j"
      using assms by (rule_tac length_slice_from_tail) 
    then show ?thesis using eq False assms by simp
  qed
qed


theorem extractCarryContext_budget_witness:
  "(0::int) \<le> 5 \<and> extractCarryContext [35,32,65,10,66,124,10,67,10,35,32,65,10,68,10,69] 5 = [67, 10, 68, 10, 69]
   \<and> spec_carry_joined [35,32,65,10,66,124,10,67,10,35,32,65,10,68,10,69]
        = [35, 32, 65, 10, 66, 124, 10, 67, 10, 68, 10, 69]
   \<and> int (length (extractCarryContext [35,32,65,10,66,124,10,67,10,35,32,65,10,68,10,69] 5)) \<le> 5"
proof -
  have j: "spec_carry_joined [35,32,65,10,66,124,10,67,10,35,32,65,10,68,10,69]
        = [35, 32, 65, 10, 66, 124, 10, 67, 10, 68, 10, 69]"
    by (simp add: spec_carry_joined_def carry_lines_def trim_def is_space_def
        is_heading_def is_table_line_def slice_last_def Let_def)
  have h: "(0::int) \<le> 5" by simp
  show ?thesis
    using extractCarryContext_budget [OF h, of "[35,32,65,10,66,124,10,67,10,35,32,65,10,68,10,69]"]
    by (simp add: j)
qed

section \<open>Quality heuristic\<close>

text \<open>
  The computed test for a heading line agrees with the regular expression: some \<open>j\<close> between
  1 and 6 such that the first \<open>j\<close> characters are \<open>#\<close> and the next one is a white space.
\<close>

lemma is_heading_regex:
  "is_heading line \<longleftrightarrow>
     (\<exists>j. 1 \<le> j \<and> j \<le> 6 \<and> j < length line \<and> take j line = replicate j 35 \<and> is_space (line ! j))"
proof
  let ?P = "\<lambda>c::nat. c = 35"
  let ?k = "length (takeWhile ?P line)"
  assume "is_heading line"
  then obtain c rest where k: "1 \<le> ?k" "?k \<le> 6"
    and d: "dropWhile ?P line = c # rest" and sp: "is_space c"
    by (auto simp: is_heading_def Let_def split: list.splits)
  have dd: "drop ?k line = c # rest"
    using d dropWhile_eq_drop [of ?P line] by simp
  then have lt: "?k < length line"
    by (cases "?k < length line") simp_all
  have c: "line ! ?k = c"
    using dd Cons_nth_drop_Suc [OF lt] by simp
  have "\<forall>x \<in> set (takeWhile ?P line). x = 35"
    by (auto dest: set_takeWhileD)
  then have "takeWhile ?P line = replicate ?k 35"
    by (simp add: replicate_length_same)
  then have t: "take ?k line = replicate ?k 35"
    using takeWhile_eq_take [of ?P line] by simp
  show "\<exists>j. 1 \<le> j \<and> j \<le> 6 \<and> j < length line \<and> take j line = replicate j 35 \<and> is_space (line ! j)"
    using k lt c t sp by blast
next
  let ?P = "\<lambda>c::nat. c = 35"
  let ?k = "length (takeWhile ?P line)"
  assume "\<exists>j. 1 \<le> j \<and> j \<le> 6 \<and> j < length line \<and> take j line = replicate j 35 \<and> is_space (line ! j)"
  then obtain j where j: "1 \<le> j" "j \<le> 6" "j < length line" "take j line = replicate j 35"
    "is_space (line ! j)" by blast
  have "\<And>i. i < j \<Longrightarrow> line ! i = 35"
  proof -
    fix i assume i: "i < j"
    then have "line ! i = take j line ! i" by simp
    also have "\<dots> = 35" using i j(4) by simp
    finally show "line ! i = 35" .
  qed
  then have ge: "j \<le> ?k"
    using j(3) by (intro length_takeWhile_less_P_nth) simp_all
  have n35: "line ! j \<noteq> 35" using j(5) by (auto simp: is_space_def)
  have le: "?k \<le> j"
  proof (rule ccontr)
    assume "\<not> ?k \<le> j"
    then have "j < ?k" by simp
    then have m: "takeWhile ?P line ! j \<in> set (takeWhile ?P line)"
      and e: "takeWhile ?P line ! j = line ! j"
      by (rule nth_mem, rule takeWhile_nth)
    from m have "takeWhile ?P line ! j = 35" by (auto dest: set_takeWhileD)
    with e have "line ! j = 35" by simp
    with n35 show False by simp
  qed
  have kj: "?k = j" using ge le by simp
  have "dropWhile ?P line = drop j line"
    using kj dropWhile_eq_drop [of ?P line] by simp
  then have "dropWhile ?P line = line ! j # drop (Suc j) line"
    using j(3) by (simp add: Cons_nth_drop_Suc)
  then show "is_heading line"
    using j kj by (simp add: is_heading_def Let_def)
qed









lemma normalizedLines_Nil: "normalizedLines [] = []"
  by (simp add: normalizedLines_def trim_def)

lemma evaluateQuality_pdf_empty:
  "evaluateQuality_pdf [] =
     \<lparr>score = 0.3, reasons = [''Too many fragmented short lines'', ''Output is unexpectedly short'']\<rparr>"
  unfolding evaluateQuality_pdf_def Let_def
  by (simp add: normalizedLines_Nil trim_def count_char_def)




section \<open>Verifier response parser\<close>

lemma clamp01_range: "0 \<le> clamp01 x \<and> clamp01 x \<le> 1"
  by (cases x) simp_all

lemma tryParse_range: "tryParse parse c = Some r \<Longrightarrow> 0 \<le> r \<and> r \<le> 1"
  using clamp01_range
  by (auto simp: tryParse_def tryParse_body_def split: option.splits json.splits sum.splits)

lemma tryParse_catches: "tryParse_body parse c = Inl err \<Longrightarrow> tryParse parse c = None"
  by (simp add: tryParse_def)

lemma parseVerifierScore_range: "parseVerifierScore parse raw = Some r \<Longrightarrow> 0 \<le> r \<and> r \<le> 1"
  by (auto simp: parseVerifierScore_def Let_def split: if_splits option.splits dest: tryParse_range)

lemma runQualityVerifier_range: "runQualityVerifier e txt p ov = Some v \<Longrightarrow> 0 \<le> v \<and> v \<le> 1"
  by (auto simp: runQualityVerifier_def Let_def split: if_splits reply.splits
      dest: parseVerifierScore_range)

lemma blend_range:
  fixes h v :: real
  assumes "0 \<le> v" "v \<le> 1"
  shows "h * 0.78 \<le> h * 0.78 + v * 0.22 \<and> h * 0.78 + v * 0.22 \<le> h * 0.78 + 0.22"
  using assms by simp

text \<open>
  Claim C9. For every raw answer and whatever \<open>JSON.parse\<close> does with it, the parser returns
  no opinion or a score between 0 and 1: both errors that can arise inside \<open>tryParse\<close> are
  caught, and a well-formed answer with any number under \<open>score\<close>, infinite ones included, is
  clamped. The verifier's opinion therefore lies in [0,1], and the blended score lies between
  \<open>0.78 * h\<close> and \<open>0.78 * h + 0.22\<close> for the heuristic score \<open>h\<close>.
\<close>

theorem parseVerifierScore_total_clamped:
  "(parseVerifierScore parse raw = None
      \<or> (\<exists>r. parseVerifierScore parse raw = Some r \<and> 0 \<le> r \<and> r \<le> 1))
   \<and> (\<forall>c err. tryParse_body parse c = Inl err \<longrightarrow> tryParse parse c = None)
   \<and> (\<forall>x. parse (strip_close_fence (strip_open_fence (strip_json_fence (trim raw))))
              = Some (JObj [(score_key, JNum x)])
          \<longrightarrow> parseVerifierScore parse raw = Some (clamp01 x))
   \<and> (\<forall>v. parseVerifierScore parse raw = Some v \<longrightarrow>
          h * 0.78 \<le> h * 0.78 + v * 0.22 \<and> h * 0.78 + v * 0.22 \<le> h * 0.78 + 0.22)
   \<and> (\<forall>v. runQualityVerifier e txt p ov = Some v \<longrightarrow> 0 \<le> v \<and> v \<le> 1)"
proof (intro conjI allI impI)
  show "parseVerifierScore parse raw = None
      \<or> (\<exists>r. parseVerifierScore parse raw = Some r \<and> 0 \<le> r \<and> r \<le> 1)"
    using parseVerifierScore_range [of parse raw] by (cases "parseVerifierScore parse raw") simp_all
next
  fix c err assume "tryParse_body parse c = Inl err"
  then show "tryParse parse c = None" by (rule tryParse_catches)
next
  fix x
  assume "parse (strip_close_fence (strip_open_fence (strip_json_fence (trim raw))))
              = Some (JObj [(score_key, JNum x)])"
  then show "parseVerifierScore parse raw = Some (clamp01 x)"
    by (simp add: parseVerifierScore_def tryParse_def tryParse_body_def Let_def)
next
  fix v assume "parseVerifierScore parse raw = Some v"
  then have "0 \<le> v \<and> v \<le> 1" by (rule parseVerifierScore_range)
  then show "h * 0.78 \<le> h * 0.78 + v * 0.22" "h * 0.78 + v * 0.22 \<le> h * 0.78 + 0.22"
    by simp_all
next
  fix v assume "runQualityVerifier e txt p ov = Some v"
  then show "0 \<le> v" "v \<le> 1" using runQualityVerifier_range by blast+
qed

theorem parseVerifierScore_total_clamped_witness:
  "parseVerifierScore
      (\<lambda>s. if s = [123,34,115,99,111,114,101,34,58,55,125,10]
           then Some (JObj [(score_key, JNum (Finite 7))]) else None)
      [96,96,96,106,115,111,110,10,123,34,115,99,111,114,101,34,58,55,125,10,96,96,96] = Some 1
   \<and> parseVerifierScore
      (\<lambda>s. if s = [123,34,115,99,111,114,101,34,58,45,49,101,57,57,57,125]
           then Some (JObj [(score_key, JNum NegInf)]) else None)
      [120,32,123,34,115,99,111,114,101,34,58,45,49,101,57,57,57,125,32,121] = Some 0
   \<and> tryParse_body (\<lambda>s. None) [120] = Inl SyntaxError
   \<and> tryParse (\<lambda>s. None) [120] = None
   \<and> tryParse_body (\<lambda>s. Some JNull) [110,117,108,108] = Inl TypeError
   \<and> tryParse (\<lambda>s. Some JNull) [110,117,108,108] = None"
proof -
  let ?p7 = "\<lambda>s. if s = [123,34,115,99,111,114,101,34,58,55,125,10]
           then Some (JObj [(score_key, JNum (Finite 7))]) else None"
  let ?raw7 = "[96,96,96,106,115,111,110,10,123,34,115,99,111,114,101,34,58,55,125,10,96,96,96]"
  let ?pn = "\<lambda>s. if s = [123,34,115,99,111,114,101,34,58,45,49,101,57,57,57,125]
           then Some (JObj [(score_key, JNum NegInf)]) else None"
  let ?rawn = "[120,32,123,34,115,99,111,114,101,34,58,45,49,101,57,57,57,125,32,121]"
  have f7: "strip_close_fence (strip_open_fence (strip_json_fence (trim ?raw7)))
      = [123,34,115,99,111,114,101,34,58,55,125,10]"
    by (simp add: trim_def is_space_def strip_json_fence_def strip_open_fence_def
        strip_close_fence_def)
  have a: "parseVerifierScore ?p7 ?raw7 = Some 1"
    using parseVerifierScore_total_clamped [of ?p7 ?raw7] by (simp add: f7)
  have b: "parseVerifierScore ?pn ?rawn = Some 0"
    by (simp add: parseVerifierScore_def trim_def is_space_def strip_json_fence_def
        strip_open_fence_def strip_close_fence_def match_braces_def tryParse_def
        tryParse_body_def Let_def)
  have c: "tryParse_body (\<lambda>s. None) [120] = Inl SyntaxError"
    "tryParse_body (\<lambda>s. Some JNull) [110,117,108,108] = Inl TypeError"
    by (simp_all add: tryParse_body_def)
  have d: "tryParse (\<lambda>s. None) [120] = None"
    using parseVerifierScore_total_clamped [of "\<lambda>s. None"] c(1) by blast
  have e: "tryParse (\<lambda>s. Some JNull) [110,117,108,108] = None"
    using parseVerifierScore_total_clamped [of "\<lambda>s. Some JNull"] c(2) by blast
  from a b c d e show ?thesis by simp
qed

section \<open>Escalation in a PDF run\<close>

lemma requiredPdfScore_formula:
  "requiredPdfScore p = (if p = Accuracy then 0 else max 0.45 (minQualityScore (OCR_PROFILE_POLICIES p) - 0.1))"
  by (simp add: requiredPdfScore_def PDF_ESCALATION_THRESHOLD_def)

lemma pdfLoop_step:
  "index < length cands \<Longrightarrow>
   pdfLoop e rq cands index st =
     (case pdfAttempt e rq (cands ! index) (index = length cands - 1) st of
        AttemptAccepted st' \<Rightarrow> (st', Returned)
      | AttemptEscalated st' \<Rightarrow> pdfLoop e rq cands (index + 1) st'
      | AttemptThrown st' msg \<Rightarrow> (st', Thrown msg))"
  by (subst pdfLoop.simps) simp

text \<open>
  Claim C1. In a PDF run, an attempt at the candidate profile \<open>p\<close> of index \<open>index\<close> that got
  its text is accepted exactly when the effective score reaches the required score or \<open>p\<close> is
  the last candidate; then the loop ends there with the completed event, otherwise it goes on
  with the next index. The required score is \<open>max 0.45 (minQualityScore p - 0.1)\<close>, and 0 for
  accuracy; the effective score is the heuristic score \<open>h\<close> without a verifier opinion and
  \<open>0.78 * h + 0.22 * v\<close> with the opinion \<open>v\<close>.
\<close>

theorem pdf_attempt_accepted_iff:
  assumes idx: "index < length cands"
      and rep: "runPdfAttemptStream e rq (cands ! index) = Reply txt"
  shows
   "let p = cands ! index;
        h = score (evaluateQuality_pdf txt);
        required = (if p = Accuracy then 0 else max 0.45 (minQualityScore (OCR_PROFILE_POLICIES p) - 0.1));
        opinion = (if h < required + 0.12 then runQualityVerifier e txt p (modelId rq) else None);
        effective = (case opinion of None \<Rightarrow> h | Some v \<Rightarrow> 0.78 * h + 0.22 * v)
    in requiredPdfScore p = required
       \<and> ((\<exists>st'. pdfAttempt e rq p (index = length cands - 1) st = AttemptAccepted st')
             \<longleftrightarrow> (effective \<ge> required \<or> index = length cands - 1))
       \<and> (effective \<ge> required \<or> index = length cands - 1 \<longrightarrow>
            (\<exists>st'. pdfLoop e rq cands index st = (st', Returned)
                \<and> eType (last (events st')) = Completed
                \<and> eProfile (last (events st')) = p
                \<and> eQualityScore (last (events st')) = Some effective))
       \<and> (\<not> (effective \<ge> required \<or> index = length cands - 1) \<longrightarrow>
            (\<exists>st'. pdfAttempt e rq p (index = length cands - 1) st = AttemptEscalated st'
                \<and> eType (last (events st')) = ProfileEscalated
                \<and> eQualityScore (last (events st')) = Some effective
                \<and> pdfLoop e rq cands index st = pdfLoop e rq cands (index + 1) st'))"
  unfolding Let_def requiredPdfScore_formula [symmetric]
  using rep
  by (cases "runQualityVerifier e txt (cands ! index) (modelId rq)")
     (auto simp: pdfLoop_step [OF idx] pdfAttempt_def Let_def emit_def yield_all_def event_def
        writeCache_def algebra_simps)

lemma example_pdf_reply: "runPdfAttemptStream example_env (pdf_example t ov) p = Reply t"
  by (simp add: runPdfAttemptStream_def example_env_def pdf_example_def)

lemma verifier_empty: "runQualityVerifier e [] p ov = Some 0"
  by (simp add: runQualityVerifier_def trim_def)

theorem pdf_attempt_accepted_iff_witness:
  "(0::nat) < length [Economy, Balanced]
   \<and> runPdfAttemptStream example_env (pdf_example [] (Some FLASH)) ([Economy, Balanced] ! 0) = Reply []
   \<and> \<not> (\<exists>st'. pdfAttempt example_env (pdf_example [] (Some FLASH)) Economy False empty_run
              = AttemptAccepted st')
   \<and> (\<exists>st'. pdfAttempt example_env (pdf_example [] (Some FLASH)) Economy False empty_run
              = AttemptEscalated st' \<and> eQualityScore (last (events st')) = Some 0.234)
   \<and> (\<exists>st'. pdfLoop example_env (pdf_example [] (Some FLASH)) [Economy, Balanced] 1 empty_run
              = (st', Returned) \<and> eQualityScore (last (events st')) = Some 0.234)
   \<and> requiredPdfScore Balanced = 0.62"
proof -
  let ?rq = "pdf_example [] (Some FLASH)"
  have i0: "(0::nat) < length [Economy, Balanced]" and i1: "(1::nat) < length [Economy, Balanced]"
    by simp_all
  have r0: "runPdfAttemptStream example_env ?rq ([Economy, Balanced] ! 0) = Reply []"
    and r1: "runPdfAttemptStream example_env ?rq ([Economy, Balanced] ! 1) = Reply []"
    by (rule example_pdf_reply)+
  note a = pdf_attempt_accepted_iff [OF i0 r0, of empty_run]
  note b = pdf_attempt_accepted_iff [OF i1 r1, of empty_run]
  from a have a': "\<not> (\<exists>st'. pdfAttempt example_env ?rq Economy False empty_run = AttemptAccepted st')"
    "(\<exists>st'. pdfAttempt example_env ?rq Economy False empty_run
              = AttemptEscalated st' \<and> eQualityScore (last (events st')) = Some 0.234)"
    by (auto simp add: Let_def evaluateQuality_pdf_empty verifier_empty)
  from b have b': "(\<exists>st'. pdfLoop example_env ?rq [Economy, Balanced] 1 empty_run
              = (st', Returned) \<and> eQualityScore (last (events st')) = Some 0.234)"
    "requiredPdfScore Balanced = 0.62"
    by (auto simp add: Let_def evaluateQuality_pdf_empty verifier_empty)
  from i0 r0 a' b' show ?thesis by simp
qed

section \<open>Failure of an attempt\<close>

lemma spanLoop_step:
  "i < length cands \<Longrightarrow>
   spanLoop e rq cc si sp cands i st =
     (case spanAttempt e rq cc si sp (cands ! i) (i = length cands - 1) st of
        SpanAccepted st' resolved \<Rightarrow> (st', Inr resolved)
      | SpanEscalated st' \<Rightarrow> spanLoop e rq cc si sp cands (i + 1) st'
      | SpanThrown st' msg \<Rightarrow> (st', Inl msg))"
  by (subst spanLoop.simps) simp

lemma imageLoop_thrown:
  "cursor < length (images rq) \<Longrightarrow>
   resolveSpanWithEscalation e rq cc cursor cands st = (st', Inl msg) \<Longrightarrow>
   imageLoop e rq cands cursor cc acc hp mq ti to st = (st', Thrown msg)"
  by (subst imageLoop.simps) simp

text \<open>
  Claim C7. When the call of an attempt fails (for an image span: the preprocessing or the
  call), at the last candidate profile the loop throws the normalized failure after the start
  event, and the image sequence run throws what its span threw; at any other profile the run
  emits a profile-escalated event that carries the failure message and no quality score,
  reasons or verification score, and goes on with the next profile. Nothing is yielded or
  written to the cache by a failed attempt.
\<close>

theorem transport_failure_escalates_or_aborts:
  "(index < length cands \<and> runPdfAttemptStream e rq (cands ! index) = Failure err \<longrightarrow>
      (index = length cands - 1 \<longrightarrow>
         (\<exists>st'. pdfLoop e rq cands index st = (st', Thrown (normalizeError err))
            \<and> map eType (events st') = map eType (events st) @ [ProfileStart]
            \<and> chunks st' = chunks st \<and> setItemCalls st' = setItemCalls st))
    \<and> (index \<noteq> length cands - 1 \<longrightarrow>
         (\<exists>st'. pdfLoop e rq cands index st = pdfLoop e rq cands (index + 1) st'
            \<and> map eType (events st') = map eType (events st) @ [ProfileStart, ProfileEscalated]
            \<and> last (events st') =
                 event ProfileEscalated (cands ! index)
                   [Lit (''Failed to start '' @ PROFILE_LABEL (cands ! index)
                         @ ''; escalating automatically.'')]
            \<and> eQualityScore (last (events st')) = None
            \<and> eReasons (last (events st')) = None
            \<and> eVerificationScore (last (events st')) = None
            \<and> chunks st' = chunks st \<and> setItemCalls st' = setItemCalls st)))
   \<and> (i < length cands
       \<and> (preprocessSpan e sp (cands ! i) = Inl err
           \<or> (\<exists>prepared. preprocessSpan e sp (cands ! i) = Inr prepared
                 \<and> runSpanAttempt e prepared
                      (buildImagePrompt e (imagePrompt irq) (cands ! i) (si + 1) (si + length sp)
                         (length (images irq)) cc)
                      (cands ! i) (imageModelId irq) = Failure err)) \<longrightarrow>
      (i = length cands - 1 \<longrightarrow>
         (\<exists>st'. spanLoop e irq cc si sp cands i ist = (st', Inl (normalizeSpanError err))
            \<and> map eType (events st') = map eType (events ist) @ [ProfileStart]
            \<and> chunks st' = chunks ist \<and> setItemCalls st' = setItemCalls ist))
    \<and> (i \<noteq> length cands - 1 \<longrightarrow>
         (\<exists>st'. spanLoop e irq cc si sp cands i ist = spanLoop e irq cc si sp cands (i + 1) st'
            \<and> map eType (events st') = map eType (events ist) @ [ProfileStart, ProfileEscalated]
            \<and> last (events st') =
                 event ProfileEscalated (cands ! i)
                   [Lit ''Pages '', Num (si + 1), Lit ''-'', Num (si + length sp),
                    Lit ('': '' @ PROFILE_LABEL (cands ! i) @ '' failed, escalating automatically.'')]
            \<and> eQualityScore (last (events st')) = None
            \<and> eReasons (last (events st')) = None
            \<and> eVerificationScore (last (events st')) = None
            \<and> chunks st' = chunks ist \<and> setItemCalls st' = setItemCalls ist)))
   \<and> (cursor < length (images irq)
       \<and> resolveSpanWithEscalation e irq cc cursor cands ist = (ist', Inl msg) \<longrightarrow>
       imageLoop e irq cands cursor cc acc hp mq ti to ist = (ist', Thrown msg))"
proof (intro conjI impI; (elim conjE)?)
  assume idx: "index < length cands"
  note step = pdfLoop_step [OF idx, of e rq st]
  assume "runPdfAttemptStream e rq (cands ! index) = Failure err" "index = length cands - 1"
  then show "\<exists>st'. pdfLoop e rq cands index st = (st', Thrown (normalizeError err))
            \<and> map eType (events st') = map eType (events st) @ [ProfileStart]
            \<and> chunks st' = chunks st \<and> setItemCalls st' = setItemCalls st"
    unfolding step by (simp add: pdfAttempt_def Let_def emit_def event_def)
next
  assume idx: "index < length cands"
  note step = pdfLoop_step [OF idx, of e rq st]
  assume "runPdfAttemptStream e rq (cands ! index) = Failure err" "index \<noteq> length cands - 1"
  then have "\<exists>st'. pdfAttempt e rq (cands ! index) (index = length cands - 1) st = AttemptEscalated st'
            \<and> map eType (events st') = map eType (events st) @ [ProfileStart, ProfileEscalated]
            \<and> last (events st') =
                 event ProfileEscalated (cands ! index)
                   [Lit (''Failed to start '' @ PROFILE_LABEL (cands ! index)
                         @ ''; escalating automatically.'')]
            \<and> eQualityScore (last (events st')) = None
            \<and> eReasons (last (events st')) = None
            \<and> eVerificationScore (last (events st')) = None
            \<and> chunks st' = chunks st \<and> setItemCalls st' = setItemCalls st"
    by (simp add: pdfAttempt_def Let_def emit_def event_def)
  then obtain st1 where "pdfAttempt e rq (cands ! index) (index = length cands - 1) st = AttemptEscalated st1"
    and props: "map eType (events st1) = map eType (events st) @ [ProfileStart, ProfileEscalated]
            \<and> last (events st1) =
                 event ProfileEscalated (cands ! index)
                   [Lit (''Failed to start '' @ PROFILE_LABEL (cands ! index)
                         @ ''; escalating automatically.'')]
            \<and> eQualityScore (last (events st1)) = None
            \<and> eReasons (last (events st1)) = None
            \<and> eVerificationScore (last (events st1)) = None
            \<and> chunks st1 = chunks st \<and> setItemCalls st1 = setItemCalls st"
    by blast
  then have "pdfLoop e rq cands index st = pdfLoop e rq cands (index + 1) st1"
    unfolding step by simp
  with props show "\<exists>st'. pdfLoop e rq cands index st = pdfLoop e rq cands (index + 1) st'
            \<and> map eType (events st') = map eType (events st) @ [ProfileStart, ProfileEscalated]
            \<and> last (events st') =
                 event ProfileEscalated (cands ! index)
                   [Lit (''Failed to start '' @ PROFILE_LABEL (cands ! index)
                         @ ''; escalating automatically.'')]
            \<and> eQualityScore (last (events st')) = None
            \<and> eReasons (last (events st')) = None
            \<and> eVerificationScore (last (events st')) = None
            \<and> chunks st' = chunks st \<and> setItemCalls st' = setItemCalls st"
    by blast
next
  assume idx: "i < length cands"
  note step = spanLoop_step [OF idx, of e irq cc si sp ist]
  assume "i = length cands - 1"
    "preprocessSpan e sp (cands ! i) = Inl err
           \<or> (\<exists>prepared. preprocessSpan e sp (cands ! i) = Inr prepared
                 \<and> runSpanAttempt e prepared
                      (buildImagePrompt e (imagePrompt irq) (cands ! i) (si + 1) (si + length sp)
                         (length (images irq)) cc)
                      (cands ! i) (imageModelId irq) = Failure err)"
  then show "\<exists>st'. spanLoop e irq cc si sp cands i ist = (st', Inl (normalizeSpanError err))
            \<and> map eType (events st') = map eType (events ist) @ [ProfileStart]
            \<and> chunks st' = chunks ist \<and> setItemCalls st' = setItemCalls ist"
    unfolding step by (auto simp: spanAttempt_def spanCatch_def Let_def emit_def event_def)
next
  assume idx: "i < length cands"
  note step = spanLoop_step [OF idx, of e irq cc si sp ist]
  assume "i \<noteq> length cands - 1"
    "preprocessSpan e sp (cands ! i) = Inl err
           \<or> (\<exists>prepared. preprocessSpan e sp (cands ! i) = Inr prepared
                 \<and> runSpanAttempt e prepared
                      (buildImagePrompt e (imagePrompt irq) (cands ! i) (si + 1) (si + length sp)
                         (length (images irq)) cc)
                      (cands ! i) (imageModelId irq) = Failure err)"
  then have "\<exists>st'. spanAttempt e irq cc si sp (cands ! i) (i = length cands - 1) ist = SpanEscalated st'
            \<and> map eType (events st') = map eType (events ist) @ [ProfileStart, ProfileEscalated]
            \<and> last (events st') =
                 event ProfileEscalated (cands ! i)
                   [Lit ''Pages '', Num (si + 1), Lit ''-'', Num (si + length sp),
                    Lit ('': '' @ PROFILE_LABEL (cands ! i) @ '' failed, escalating automatically.'')]
            \<and> eQualityScore (last (events st')) = None
            \<and> eReasons (last (events st')) = None
            \<and> eVerificationScore (last (events st')) = None
            \<and> chunks st' = chunks ist \<and> setItemCalls st' = setItemCalls ist"
    by (auto simp: spanAttempt_def spanCatch_def Let_def emit_def event_def)
  then obtain st1 where "spanAttempt e irq cc si sp (cands ! i) (i = length cands - 1) ist = SpanEscalated st1"
    and props: "map eType (events st1) = map eType (events ist) @ [ProfileStart, ProfileEscalated]
            \<and> last (events st1) =
                 event ProfileEscalated (cands ! i)
                   [Lit ''Pages '', Num (si + 1), Lit ''-'', Num (si + length sp),
                    Lit ('': '' @ PROFILE_LABEL (cands ! i) @ '' failed, escalating automatically.'')]
            \<and> eQualityScore (last (events st1)) = None
            \<and> eReasons (last (events st1)) = None
            \<and> eVerificationScore (last (events st1)) = None
            \<and> chunks st1 = chunks ist \<and> setItemCalls st1 = setItemCalls ist"
    by blast
  then have "spanLoop e irq cc si sp cands i ist = spanLoop e irq cc si sp cands (i + 1) st1"
    unfolding step by simp
  with props show "\<exists>st'. spanLoop e irq cc si sp cands i ist = spanLoop e irq cc si sp cands (i + 1) st'
            \<and> map eType (events st') = map eType (events ist) @ [ProfileStart, ProfileEscalated]
            \<and> last (events st') =
                 event ProfileEscalated (cands ! i)
                   [Lit ''Pages '', Num (si + 1), Lit ''-'', Num (si + length sp),
                    Lit ('': '' @ PROFILE_LABEL (cands ! i) @ '' failed, escalating automatically.'')]
            \<and> eQualityScore (last (events st')) = None
            \<and> eReasons (last (events st')) = None
            \<and> eVerificationScore (last (events st')) = None
            \<and> chunks st' = chunks ist \<and> setItemCalls st' = setItemCalls ist"
    by blast
next
  assume "cursor < length (images irq)"
    "resolveSpanWithEscalation e irq cc cursor cands ist = (ist', Inl msg)"
  then show "imageLoop e irq cands cursor cc acc hp mq ti to ist = (ist', Thrown msg)"
    by (rule imageLoop_thrown)
qed


lemma failing_pdf_reply:
  "runPdfAttemptStream failing_env (pdf_example t ov) p = Failure (ErrorObject [120])"
  by (simp add: runPdfAttemptStream_def failing_env_def example_env_def)

lemma failing_span_reply:
  "runSpanAttempt failing_env prepared pr p ov = Failure (ErrorObject [120])"
  by (simp add: runSpanAttempt_def failing_env_def example_env_def)

lemma failing_preprocess:
  "preprocessSpan failing_env imgs p =
     Inr (map (\<lambda>img. \<lparr>mimeType = ''image/png'', data = preview img\<rparr>) imgs)"
  by (simp add: failing_env_def example_env_def)

theorem transport_failure_escalates_or_aborts_witness:
  "(\<exists>st'. pdfLoop failing_env (pdf_example [] (Some FLASH)) [Economy, Balanced] 0 empty_run
            = (st', Thrown [Lit ''Analysis failed: '', Txt [120]])
       \<and> map eType (events st') = [ProfileStart, ProfileEscalated, ProfileStart]
       \<and> chunks st' = [] \<and> setItemCalls st' = [])
   \<and> (\<exists>st'. imageLoop failing_env (image_example [] (Some FLASH)) [Economy, Balanced] 0 [] []
              Economy 1 0 0 empty_run
            = (st', Thrown [Lit ''Image sequence analysis failed: '', Txt [120]])
       \<and> map eType (events st') = [ProfileStart, ProfileEscalated, ProfileStart]
       \<and> chunks st' = [] \<and> setItemCalls st' = [])"
proof -
  let ?rq = "pdf_example [] (Some FLASH)"
  let ?irq = "image_example [] (Some FLASH)"
  let ?cands = "[Economy, Balanced]"
  let ?err = "ErrorObject [120]"
  let ?sp = "slice 0 (0 + 1) (images ?irq)"
  have sp: "?sp \<noteq> []" by (simp add: slice_def image_example_def)
  note t0 = transport_failure_escalates_or_aborts
    [where index = 0 and cands = ?cands and e = failing_env and rq = ?rq and err = ?err
       and st = "empty_run" and i = 0 and irq = ?irq and sp = ?sp and si = 0 and cc = "[]"
       and ist = "empty_run"]
  have "\<exists>st1. pdfLoop failing_env ?rq ?cands 0 empty_run = pdfLoop failing_env ?rq ?cands (0 + 1) st1
      \<and> map eType (events st1) = [ProfileStart, ProfileEscalated]
      \<and> chunks st1 = [] \<and> setItemCalls st1 = []"
    using t0 [THEN conjunct1] by (auto simp add: failing_pdf_reply empty_run_def)
  then obtain st1 where
    a1: "pdfLoop failing_env ?rq ?cands 0 empty_run = pdfLoop failing_env ?rq ?cands (0 + 1) st1"
      and e1: "map eType (events st1) = [ProfileStart, ProfileEscalated]"
      and c1: "chunks st1 = []" "setItemCalls st1 = []"
    by auto
  have "\<exists>ist1. spanLoop failing_env ?irq [] 0 ?sp ?cands 0 empty_run
          = spanLoop failing_env ?irq [] 0 ?sp ?cands (0 + 1) ist1
      \<and> map eType (events ist1) = [ProfileStart, ProfileEscalated]
      \<and> chunks ist1 = [] \<and> setItemCalls ist1 = []"
    using t0 [THEN conjunct2, THEN conjunct1]
    by (auto simp add: failing_span_reply failing_preprocess empty_run_def)
  then obtain ist1 where
    b1: "spanLoop failing_env ?irq [] 0 ?sp ?cands 0 empty_run
          = spanLoop failing_env ?irq [] 0 ?sp ?cands (0 + 1) ist1"
      and f1: "map eType (events ist1) = [ProfileStart, ProfileEscalated]"
      and d1: "chunks ist1 = []" "setItemCalls ist1 = []"
    by auto
  note t1 = transport_failure_escalates_or_aborts
    [where index = 1 and cands = ?cands and e = failing_env and rq = ?rq and err = ?err
       and st = st1 and i = 1 and irq = ?irq and sp = ?sp and si = 0 and cc = "[]"
       and ist = ist1]
  have "\<exists>st2. pdfLoop failing_env ?rq ?cands 1 st1 = (st2, Thrown (normalizeError ?err))
      \<and> map eType (events st2) = map eType (events st1) @ [ProfileStart]
      \<and> chunks st2 = chunks st1 \<and> setItemCalls st2 = setItemCalls st1"
    using t1 [THEN conjunct1] by (auto simp add: failing_pdf_reply)
  then obtain st2 where
    a2: "pdfLoop failing_env ?rq ?cands 1 st1 = (st2, Thrown (normalizeError ?err))"
      and e2: "map eType (events st2) = map eType (events st1) @ [ProfileStart]"
      and c2: "chunks st2 = chunks st1" "setItemCalls st2 = setItemCalls st1"
    by auto
  have "\<exists>ist2. spanLoop failing_env ?irq [] 0 ?sp ?cands 1 ist1 = (ist2, Inl (normalizeSpanError ?err))
      \<and> map eType (events ist2) = map eType (events ist1) @ [ProfileStart]
      \<and> chunks ist2 = chunks ist1 \<and> setItemCalls ist2 = setItemCalls ist1"
    using t1 [THEN conjunct2, THEN conjunct1]
    by (auto simp add: failing_span_reply failing_preprocess)
  then obtain ist2 where
    b2: "spanLoop failing_env ?irq [] 0 ?sp ?cands 1 ist1 = (ist2, Inl (normalizeSpanError ?err))"
      and f2: "map eType (events ist2) = map eType (events ist1) @ [ProfileStart]"
      and d2: "chunks ist2 = chunks ist1" "setItemCalls ist2 = setItemCalls ist1"
    by auto
  have pdf: "pdfLoop failing_env ?rq ?cands 0 empty_run
      = (st2, Thrown [Lit ''Analysis failed: '', Txt [120]])"
    using a1 a2 by (simp add: normalizeError_def)
  have "resolveSpanWithEscalation failing_env ?irq [] 0 ?cands empty_run
      = (ist2, Inl (normalizeSpanError ?err))"
    using b1 b2 sp by (simp add: resolveSpanWithEscalation_def Let_def)
  moreover have "(0::nat) < length (images ?irq)" by (simp add: image_example_def)
  ultimately have "imageLoop failing_env ?irq ?cands 0 [] [] Economy 1 0 0 empty_run
      = (ist2, Thrown (normalizeSpanError ?err))"
    using transport_failure_escalates_or_aborts
      [where cursor = 0 and irq = ?irq and e = failing_env and cc = "[]" and cands = ?cands
         and ist = "empty_run" and ist' = ist2 and msg = "normalizeSpanError ?err"]
    by blast
  then have img: "imageLoop failing_env ?irq ?cands 0 [] [] Economy 1 0 0 empty_run
      = (ist2, Thrown [Lit ''Image sequence analysis failed: '', Txt [120]])"
    by (simp add: normalizeSpanError_def)
  show ?thesis
    using pdf img e1 e2 c1 c2 f1 f2 d1 d2 by simp
qed

section \<open>When the verifier is asked\<close>










lemma pdf_example_sel:
  "pdfBase64 (pdf_example t ov) = [65, 65, 65, 65]" "prompt (pdf_example t ov) = t"
  "modelId (pdf_example t ov) = ov" "cacheKey (pdf_example t ov) = [107]"
  by (simp_all add: pdf_example_def)


lemma image_example_sel:
  "images (image_example t ov) = [\<lparr>preview = [65], base64 = Some [65]\<rparr>]"
  "imagePrompt (image_example t ov) = t" "imageModelId (image_example t ov) = ov"
  "imageCacheKey (image_example t ov) = [107]"
  by (simp_all add: image_example_def)

lemma example_span_reply: "runSpanAttempt example_env prepared pr p ov = Reply pr"
  by (simp add: runSpanAttempt_def example_env_def)

lemma example_preprocess:
  "preprocessSpan example_env imgs p =
     Inr (map (\<lambda>img. \<lparr>mimeType = ''image/png'', data = preview img\<rparr>) imgs)"
  by (simp add: example_env_def)

lemma example_image_prompt: "buildImagePrompt example_env t p a b c cc = t"
  by (simp add: example_env_def)



section \<open>What the loops do to the cache, the output and the events\<close>

lemma pdfAttempt_not_accepted:
  "pdfAttempt e rq p isLast st = AttemptEscalated st' \<or> pdfAttempt e rq p isLast st = AttemptThrown st' m
   \<Longrightarrow> setItemCalls st' = setItemCalls st \<and> storage st' = storage st \<and> chunks st' = chunks st
       \<and> accepted_count st' = accepted_count st"
  by (auto simp: pdfAttempt_def Let_def emit_def event_def accepted_count_def
      split: reply.splits if_splits)

lemma pdfAttempt_accepted:
  assumes "pdfAttempt e rq p isLast st = AttemptAccepted st'"
  shows "\<exists>txt q. runPdfAttemptStream e rq p = Reply txt
      \<and> (requiredPdfScore p \<le> q \<or> isLast)
      \<and> setItemCalls st' = setItemCalls st
           @ [(cacheKey rq, \<lparr>createdAt = now_write e, entryText = txt, entryProfile = p, quality = q\<rparr>)]
      \<and> storage st' = (if setItem_throws e then storage st
                        else (storage st)(cacheKey rq \<mapsto>
                          \<lparr>createdAt = now_write e, entryText = txt, entryProfile = p, quality = q\<rparr>))
      \<and> chunks st' = chunks st @ createTextStream txt
      \<and> accepted_count st' = accepted_count st + 1
      \<and> eType (last (events st')) = Completed
      \<and> eProfile (last (events st')) = p
      \<and> eQualityScore (last (events st')) = Some q"
proof (cases "runPdfAttemptStream e rq p")
  case (Failure err)
  with assms show ?thesis by (simp add: pdfAttempt_def Let_def split: if_splits)
next
  case (Reply t)
  with assms show ?thesis
    by (cases "runQualityVerifier e t p (modelId rq)")
       (auto simp: pdfAttempt_def Let_def emit_def yield_all_def event_def writeCache_def
          accepted_count_def split: if_splits)
qed

lemma pdfLoop_writes:
  "pdfLoop e rq cands index st = (st', out) \<Longrightarrow>
     (setItemCalls st' = setItemCalls st \<and> storage st' = storage st \<and> chunks st' = chunks st
        \<and> accepted_count st' = accepted_count st)
   \<or> (\<exists>i txt q. index \<le> i \<and> i < length cands \<and> out = Returned
        \<and> runPdfAttemptStream e rq (cands ! i) = Reply txt
        \<and> (requiredPdfScore (cands ! i) \<le> q \<or> i = length cands - 1)
        \<and> setItemCalls st' = setItemCalls st
             @ [(cacheKey rq, \<lparr>createdAt = now_write e, entryText = txt,
                              entryProfile = cands ! i, quality = q\<rparr>)]
        \<and> storage st' = (if setItem_throws e then storage st
                          else (storage st)(cacheKey rq \<mapsto>
                            \<lparr>createdAt = now_write e, entryText = txt,
                             entryProfile = cands ! i, quality = q\<rparr>))
        \<and> chunks st' = chunks st @ createTextStream txt
        \<and> accepted_count st' = accepted_count st + 1
        \<and> eType (last (events st')) = Completed
        \<and> eProfile (last (events st')) = cands ! i
        \<and> eQualityScore (last (events st')) = Some q)"
proof (induction e rq cands index st rule: pdfLoop.induct)
  case (1 e rq cands index st)
  show ?case
  proof (cases "index < length cands")
    case False
    with "1.prems" have "st' = st" by (simp add: pdfLoop.simps [of e rq cands index st])
    then show ?thesis by simp
  next
    case True
    note step = pdfLoop_step [OF True, of e rq st]
    show ?thesis
    proof (cases "pdfAttempt e rq (cands ! index) (index = length cands - 1) st")
      case (AttemptAccepted st1)
      with "1.prems" step have "st' = st1" "out = Returned" by simp_all
      with pdfAttempt_accepted [OF AttemptAccepted] True show ?thesis
        by (intro disjI2) (metis order_refl)
    next
      case (AttemptEscalated st1)
      with "1.prems" step have loop: "pdfLoop e rq cands (index + 1) st1 = (st', out)" by simp
      from AttemptEscalated have same: "setItemCalls st1 = setItemCalls st \<and> storage st1 = storage st
          \<and> chunks st1 = chunks st \<and> accepted_count st1 = accepted_count st"
        using pdfAttempt_not_accepted by blast
      from "1.IH" [OF True AttemptEscalated loop] show ?thesis
      proof
        assume "setItemCalls st' = setItemCalls st1 \<and> storage st' = storage st1
            \<and> chunks st' = chunks st1 \<and> accepted_count st' = accepted_count st1"
        with same show ?thesis by simp
      next
        assume "\<exists>i txt q. index + 1 \<le> i \<and> i < length cands \<and> out = Returned
          \<and> runPdfAttemptStream e rq (cands ! i) = Reply txt
          \<and> (requiredPdfScore (cands ! i) \<le> q \<or> i = length cands - 1)
          \<and> setItemCalls st' = setItemCalls st1
               @ [(cacheKey rq, \<lparr>createdAt = now_write e, entryText = txt,
                                entryProfile = cands ! i, quality = q\<rparr>)]
          \<and> storage st' = (if setItem_throws e then storage st1
                            else (storage st1)(cacheKey rq \<mapsto>
                              \<lparr>createdAt = now_write e, entryText = txt,
                               entryProfile = cands ! i, quality = q\<rparr>))
          \<and> chunks st' = chunks st1 @ createTextStream txt
          \<and> accepted_count st' = accepted_count st1 + 1
          \<and> eType (last (events st')) = Completed
          \<and> eProfile (last (events st')) = cands ! i
          \<and> eQualityScore (last (events st')) = Some q"
        then obtain i t q where "index + 1 \<le> i" and rest: "i < length cands \<and> out = Returned
          \<and> runPdfAttemptStream e rq (cands ! i) = Reply t
          \<and> (requiredPdfScore (cands ! i) \<le> q \<or> i = length cands - 1)
          \<and> setItemCalls st' = setItemCalls st1
               @ [(cacheKey rq, \<lparr>createdAt = now_write e, entryText = t,
                                entryProfile = cands ! i, quality = q\<rparr>)]
          \<and> storage st' = (if setItem_throws e then storage st1
                            else (storage st1)(cacheKey rq \<mapsto>
                              \<lparr>createdAt = now_write e, entryText = t,
                               entryProfile = cands ! i, quality = q\<rparr>))
          \<and> chunks st' = chunks st1 @ createTextStream t
          \<and> accepted_count st' = accepted_count st1 + 1
          \<and> eType (last (events st')) = Completed
          \<and> eProfile (last (events st')) = cands ! i
          \<and> eQualityScore (last (events st')) = Some q"
          by blast
        then have "index \<le> i" by simp
        with rest same show ?thesis
          by (intro disjI2 exI [of _ i] exI [of _ t] exI [of _ q]) simp
      qed
    next
      case (AttemptThrown st1 m)
      with "1.prems" step have "st' = st1" by simp
      with AttemptThrown pdfAttempt_not_accepted [of e rq "cands ! index" "index = length cands - 1" st st' m]
      show ?thesis by simp
    qed
  qed
qed

lemma spanAttempt_state:
  "setItemCalls (span_state (spanAttempt e rq cc si sp p isLast st)) = setItemCalls st
   \<and> storage (span_state (spanAttempt e rq cc si sp p isLast st)) = storage st
   \<and> chunks (span_state (spanAttempt e rq cc si sp p isLast st)) = chunks st"
  by (auto simp: spanAttempt_def spanDecide_def spanCatch_def Let_def emit_def
      split: sum.splits reply.splits)

lemma spanAttempt_accepted_count:
  "accepted_count (span_state (spanAttempt e rq cc si sp p isLast st))
     = accepted_count st
       + (case spanAttempt e rq cc si sp p isLast st of SpanAccepted _ _ \<Rightarrow> 1 | _ \<Rightarrow> 0)"
  by (auto simp: spanAttempt_def spanDecide_def spanCatch_def Let_def emit_def event_def
      accepted_count_def split: sum.splits reply.splits)

lemma spanLoop_effects:
  "spanLoop e rq cc si sp cands i st = (st', res) \<Longrightarrow>
     setItemCalls st' = setItemCalls st \<and> storage st' = storage st \<and> chunks st' = chunks st
     \<and> accepted_count st' = accepted_count st + (case res of Inr _ \<Rightarrow> 1 | Inl _ \<Rightarrow> 0)"
proof (induction e rq cc si sp cands i st rule: spanLoop.induct)
  case (1 e rq cc si sp cands i st)
  show ?case
  proof (cases "i < length cands")
    case False
    with "1.prems" show ?thesis by (auto simp: spanLoop.simps [of e rq cc si sp cands i st])
  next
    case True
    note step = spanLoop_step [OF True, of e rq cc si sp st]
    note a = spanAttempt_state [of e rq cc si sp "cands ! i" "i = length cands - 1" st]
    note b = spanAttempt_accepted_count [of e rq cc si sp "cands ! i" "i = length cands - 1" st]
    show ?thesis
    proof (cases "spanAttempt e rq cc si sp (cands ! i) (i = length cands - 1) st")
      case (SpanAccepted st1 r)
      with "1.prems" step a b show ?thesis by auto
    next
      case (SpanEscalated st1)
      with "1.prems" step have "spanLoop e rq cc si sp cands (i + 1) st1 = (st', res)" by simp
      from "1.IH" [OF True SpanEscalated this] a b SpanEscalated show ?thesis by simp
    next
      case (SpanThrown st1 m)
      with "1.prems" step a b show ?thesis by auto
    qed
  qed
qed

lemma resolveSpan_effects:
  assumes "resolveSpanWithEscalation e rq cc si cands st = (st', res)"
  shows "setItemCalls st' = setItemCalls st \<and> storage st' = storage st \<and> chunks st' = chunks st
     \<and> (\<forall>r. res = Inr r \<longrightarrow> accepted_count st' = accepted_count st + 1 \<and> rConsumed r = 1)
     \<and> (\<forall>m. res = Inl m \<longrightarrow> accepted_count st' = accepted_count st)"
proof (cases "slice si (si + 1) (images rq) = []")
  case True
  with assms show ?thesis by (auto simp: resolveSpanWithEscalation_def Let_def)
next
  case False
  have len: "length (slice si (si + 1) (images rq)) \<le> 1" by (simp add: slice_def)
  with False have one: "length (slice si (si + 1) (images rq)) = 1"
    by (cases "slice si (si + 1) (images rq)") simp_all
  from assms False
  have loop: "spanLoop e rq cc si (slice si (si + 1) (images rq)) cands 0 st = (st', res)"
    by (simp add: resolveSpanWithEscalation_def Let_def)
  from spanLoop_effects [OF loop] spanLoop_consumed [of e rq cc si _ cands 0 st st'] loop one
  show ?thesis by (cases res) auto
qed

lemma spanAttempt_text:
  assumes "spanAttempt e rq cc si sp p isLast st = SpanAccepted st' r"
  shows "\<exists>m ps pr. generateContentStream e m ps pr = Reply (rText r)"
proof (cases "preprocessSpan e sp p")
  case (Inl err)
  with assms show ?thesis
    by (simp add: spanAttempt_def spanCatch_def Let_def split: if_splits)
next
  case (Inr prepared)
  let ?pr = "buildImagePrompt e (imagePrompt rq) p (si + 1) (si + length sp) (length (images rq)) cc"
  show ?thesis
  proof (cases "runSpanAttempt e prepared ?pr p (imageModelId rq)")
    case (Failure err)
    with Inr assms show ?thesis
      by (simp add: spanAttempt_def spanCatch_def Let_def split: if_splits)
  next
    case (Reply t)
    with Inr assms have "rText r = t"
      by (auto simp: spanAttempt_def spanDecide_def Let_def split: if_splits)
    with Reply show ?thesis unfolding runSpanAttempt_def by blast
  qed
qed

lemma spanLoop_text:
  "spanLoop e rq cc si sp cands i st = (st', Inr r) \<Longrightarrow>
   \<exists>m ps pr. generateContentStream e m ps pr = Reply (rText r)"
proof (induction e rq cc si sp cands i st rule: spanLoop.induct)
  case (1 e rq cc si sp cands i st)
  show ?case
  proof (cases "i < length cands")
    case False
    with "1.prems" show ?thesis by (simp add: spanLoop.simps [of e rq cc si sp cands i st])
  next
    case True
    note step = spanLoop_step [OF True, of e rq cc si sp st]
    show ?thesis
    proof (cases "spanAttempt e rq cc si sp (cands ! i) (i = length cands - 1) st")
      case (SpanAccepted st1 r1)
      with "1.prems" step have "r1 = r" by simp
      with SpanAccepted show ?thesis by (auto dest: spanAttempt_text)
    next
      case (SpanEscalated st1)
      with "1.prems" step have "spanLoop e rq cc si sp cands (i + 1) st1 = (st', Inr r)" by simp
      from "1.IH" [OF True SpanEscalated this] show ?thesis .
    next
      case (SpanThrown st1 m)
      with "1.prems" step show ?thesis by simp
    qed
  qed
qed

lemma resolveSpan_text:
  "resolveSpanWithEscalation e rq cc si cands st = (st', Inr r) \<Longrightarrow>
   \<exists>m ps pr. generateContentStream e m ps pr = Reply (rText r)"
  by (auto simp: resolveSpanWithEscalation_def Let_def split: if_splits dest: spanLoop_text)

lemma imageLoop_finish:
  "\<not> cursor < length (images rq) \<Longrightarrow>
   imageLoop e rq cands cursor cc acc hp mq ti to st =
     (emit ((event Completed hp
               [Lit (''Completed image sequence with max profile '' @ PROFILE_LABEL hp @ ''.'')])
             \<lparr>eQualityScore := Some (if acc = [] then 0 else mq),
              eEstimatedInputTokens := Some ti,
              eEstimatedOutputTokens := Some to\<rparr>)
        (writeCache e (imageCacheKey rq)
           \<lparr>imgCreatedAt = now_write e, imgText = acc,
            imgHighestProfile = hp, imgQuality = (if acc = [] then 0 else mq)\<rparr> st),
      Returned)"
  by (subst imageLoop.simps) (simp add: Let_def)

lemma imageLoop_next:
  "cursor < length (images rq) \<Longrightarrow>
   resolveSpanWithEscalation e rq cc cursor cands st = (st1, Inr r) \<Longrightarrow>
   imageLoop e rq cands cursor cc acc hp mq ti to st =
     imageLoop e rq cands (cursor + rConsumed r)
       (extractCarryContext (trim (rText r)) (carryContextChars (OCR_PROFILE_POLICIES (rProfile r))))
       (if trim (rText r) \<noteq> []
        then acc @ (if acc \<noteq> [] then [10, 10] @ trim (rText r) else trim (rText r)) else acc)
       (maxProfile hp (rProfile r))
       (min mq (rQualityScore r))
       (ti + rEstimatedInputTokens r)
       (to + rEstimatedOutputTokens r)
       (if trim (rText r) \<noteq> []
        then yield_all [if acc \<noteq> [] then [10, 10] @ trim (rText r) else trim (rText r)] st1
        else st1)"
  by (subst imageLoop.simps) (auto simp: Let_def)


lemma sequence_written_shift:
  "sequence_written e rq entry st1 st' \<Longrightarrow> setItemCalls st1 = setItemCalls st \<Longrightarrow>
   storage st1 = storage st \<Longrightarrow> sequence_written e rq entry st st'"
  by (simp add: sequence_written_def)

lemma imageLoop_result:
  "imageLoop e rq cands cursor cc acc hp mq ti to st = (st', out) \<Longrightarrow>
   \<exists>texts. chunks st' = chunks st @ span_chunks acc texts
     \<and> length texts \<le> length (images rq) - cursor
     \<and> (\<forall>t \<in> set texts. \<exists>m ps pr. generateContentStream e m ps pr = Reply t)
     \<and> (\<forall>m. out = Thrown m \<longrightarrow> setItemCalls st' = setItemCalls st \<and> storage st' = storage st)
     \<and> (out = Returned \<longrightarrow>
          length texts = length (images rq) - cursor
          \<and> (\<exists>hp' mq'. mq' \<le> mq
             \<and> sequence_written e rq
                  (sequence_entry e (acc @ concat (span_chunks acc texts)) hp' mq') st st'
             \<and> accepted_count st' = accepted_count st + (length (images rq) - cursor)))"
proof (induction "length (images rq) - cursor" arbitrary: cursor cc acc hp mq ti to st)
  case 0
  then have fin: "\<not> cursor < length (images rq)" by simp
  from "0.prems" have st': "st' = emit ((event Completed hp
               [Lit (''Completed image sequence with max profile '' @ PROFILE_LABEL hp @ ''.'')])
             \<lparr>eQualityScore := Some (if acc = [] then 0 else mq),
              eEstimatedInputTokens := Some ti,
              eEstimatedOutputTokens := Some to\<rparr>)
        (writeCache e (imageCacheKey rq)
           \<lparr>imgCreatedAt = now_write e, imgText = acc,
            imgHighestProfile = hp, imgQuality = (if acc = [] then 0 else mq)\<rparr> st)"
    and out: "out = Returned"
    unfolding imageLoop_finish [OF fin] by simp_all
  have "sequence_written e rq (sequence_entry e (acc @ concat (span_chunks acc [])) hp mq) st st'"
    unfolding st' by (simp add: sequence_written_def sequence_entry_def emit_def writeCache_def event_def)
  moreover have "accepted_count st' = accepted_count st + (length (images rq) - cursor)"
    unfolding st' using fin by (simp add: accepted_count_def emit_def writeCache_def event_def)
  moreover have "chunks st' = chunks st @ span_chunks acc []"
    unfolding st' by (simp add: emit_def writeCache_def)
  moreover have "length ([] :: jsstring list) = length (images rq) - cursor"
    using fin by simp
  ultimately show ?case using out
    by (intro exI [of _ "[]"]) auto
next
  case (Suc n)
  then have lt: "cursor < length (images rq)" by simp
  obtain st1 res where res: "resolveSpanWithEscalation e rq cc cursor cands st = (st1, res)"
    by (cases "resolveSpanWithEscalation e rq cc cursor cands st")
  note eff = resolveSpan_effects [OF res]
  show ?case
  proof (cases res)
    case (Inl m)
    with res have "imageLoop e rq cands cursor cc acc hp mq ti to st = (st1, Thrown m)"
      using lt by (simp add: imageLoop_thrown)
    with Suc.prems have "st' = st1" "out = Thrown m" by simp_all
    with eff show ?thesis by (intro exI [of _ "[]"]) simp
  next
    case (Inr r)
    let ?norm = "trim (rText r)"
    let ?app = "if acc \<noteq> [] then [10, 10] @ ?norm else ?norm"
    let ?acc' = "if ?norm \<noteq> [] then acc @ ?app else acc"
    let ?st1' = "if ?norm \<noteq> [] then yield_all [?app] st1 else st1"
    from eff Inr have one: "rConsumed r = 1" and cnt: "accepted_count st1 = accepted_count st + 1"
      by simp_all
    from res Inr have rr: "resolveSpanWithEscalation e rq cc cursor cands st = (st1, Inr r)" by simp
    from imageLoop_next [OF lt rr, of acc hp mq ti to] Suc.prems one
    have loop: "imageLoop e rq cands (cursor + 1)
       (extractCarryContext ?norm (carryContextChars (OCR_PROFILE_POLICIES (rProfile r))))
       ?acc' (maxProfile hp (rProfile r)) (min mq (rQualityScore r))
       (ti + rEstimatedInputTokens r) (to + rEstimatedOutputTokens r) ?st1' = (st', out)"
      by simp
    have n: "n = length (images rq) - (cursor + 1)" using Suc.hyps(2) by simp
    from Suc.hyps(1) [OF n loop] obtain texts where
      ch: "chunks st' = chunks ?st1' @ span_chunks ?acc' texts"
      and ln: "length texts \<le> length (images rq) - (cursor + 1)"
      and sv: "\<forall>t \<in> set texts. \<exists>m ps pr. generateContentStream e m ps pr = Reply t"
      and th: "\<forall>m. out = Thrown m \<longrightarrow>
                 setItemCalls st' = setItemCalls ?st1' \<and> storage st' = storage ?st1'"
      and rt: "out = Returned \<longrightarrow>
          length texts = length (images rq) - (cursor + 1)
          \<and> (\<exists>hp' mq'. mq' \<le> min mq (rQualityScore r)
             \<and> sequence_written e rq
                  (sequence_entry e (?acc' @ concat (span_chunks ?acc' texts)) hp' mq') ?st1' st'
             \<and> accepted_count st' = accepted_count ?st1' + (length (images rq) - (cursor + 1)))"
      by blast
    have s1: "setItemCalls ?st1' = setItemCalls st" "storage ?st1' = storage st"
      "accepted_count ?st1' = accepted_count st + 1"
      using eff cnt by (simp_all add: yield_all_def accepted_count_def)
    let ?texts = "rText r # texts"
    have c: "chunks st' = chunks st @ span_chunks acc ?texts"
      using ch eff by (simp add: yield_all_def)
    have a: "?acc' @ concat (span_chunks ?acc' texts) = acc @ concat (span_chunks acc ?texts)"
      by simp
    have l: "length ?texts \<le> length (images rq) - cursor" using ln lt by simp
    have v: "\<forall>t \<in> set ?texts. \<exists>m ps pr. generateContentStream e m ps pr = Reply t"
      using sv resolveSpan_text [OF rr] by simp
    have t: "\<forall>m. out = Thrown m \<longrightarrow> setItemCalls st' = setItemCalls st \<and> storage st' = storage st"
      using th s1 by simp
    have r': "out = Returned \<longrightarrow>
          length ?texts = length (images rq) - cursor
          \<and> (\<exists>hp' mq'. mq' \<le> mq
             \<and> sequence_written e rq
                  (sequence_entry e (acc @ concat (span_chunks acc ?texts)) hp' mq') st st'
             \<and> accepted_count st' = accepted_count st + (length (images rq) - cursor))"
    proof
      assume "out = Returned"
      with rt obtain hp' mq' where le: "mq' \<le> min mq (rQualityScore r)"
        and len: "length texts = length (images rq) - (cursor + 1)"
        and w: "sequence_written e rq
                  (sequence_entry e (?acc' @ concat (span_chunks ?acc' texts)) hp' mq') ?st1' st'"
        and ac: "accepted_count st' = accepted_count ?st1' + (length (images rq) - (cursor + 1))"
        by blast
      from w have "sequence_written e rq
                  (sequence_entry e (?acc' @ concat (span_chunks ?acc' texts)) hp' mq') st st'"
        using s1(1) s1(2) by (rule sequence_written_shift)
      then have "sequence_written e rq
                  (sequence_entry e (acc @ concat (span_chunks acc ?texts)) hp' mq') st st'"
        unfolding a .
      moreover from le have "mq' \<le> mq" by simp
      moreover from ac s1(3) lt
      have "accepted_count st' = accepted_count st + (length (images rq) - cursor)" by simp
      moreover from len lt have "length ?texts = length (images rq) - cursor" by simp
      ultimately show "length ?texts = length (images rq) - cursor
          \<and> (\<exists>hp' mq'. mq' \<le> mq
             \<and> sequence_written e rq
                  (sequence_entry e (acc @ concat (span_chunks acc ?texts)) hp' mq') st st'
             \<and> accepted_count st' = accepted_count st + (length (images rq) - cursor))"
        by blast
    qed
    from c l v t r' show ?thesis by blast
  qed
qed

lemma span_chunks_blank: "\<forall>t \<in> set texts. trim t = [] \<Longrightarrow> span_chunks acc texts = []"
  by (induction texts arbitrary: acc) simp_all

lemma span_chunks_nonempty: "\<forall>c \<in> set (span_chunks acc texts). c \<noteq> []"
  by (induction texts arbitrary: acc) simp_all

section \<open>Cache writes\<close>

lemma example_env_sel:
  "now_write example_env = 2000" "now_read example_env = 1000"
  "setItem_throws example_env = False" "buildPdfPrompt example_env t p = t"
  by (simp_all add: example_env_def)

lemma failing_env_sel:
  "now_write failing_env = 2000" "setItem_throws failing_env = False"
  "buildPdfPrompt failing_env t p = t" "buildImagePrompt failing_env t p a b c cc = t"
  by (simp_all add: failing_env_def example_env_def)

lemma createTextStream_Nil: "createTextStream [] = []"
  by (simp add: createTextStream_def createTextStream_from.simps)

lemma requiredPdfScore_values:
  "requiredPdfScore Economy = 0.48" "requiredPdfScore Balanced = 0.62" "requiredPdfScore Accuracy = 0"
  by (simp_all add: requiredPdfScore_def PDF_ESCALATION_THRESHOLD_def)

lemma pdf_example_run:
  "\<exists>S. pdfLoop example_env (pdf_example [] (Some FLASH)) [Economy, Balanced] 0 empty_run = (S, Returned)
     \<and> setItemCalls S = [([107], \<lparr>createdAt = 2000, entryText = [], entryProfile = Balanced,
                                  quality = 0.234\<rparr>)]
     \<and> storage S [107] = Some \<lparr>createdAt = 2000, entryText = [], entryProfile = Balanced,
                                  quality = 0.234\<rparr>
     \<and> map eType (events S) = [ProfileStart, ProfileEscalated, ProfileStart, ProfileAccepted, Completed]
     \<and> chunks S = []"
  by (simp add: pdfLoop.simps pdfAttempt_def example_pdf_reply evaluateQuality_pdf_empty
      verifier_empty requiredPdfScore_values Let_def emit_def yield_all_def writeCache_def
      event_def empty_run_def pdf_example_sel example_env_sel createTextStream_Nil)

lemma pdf_failing_run:
  "\<exists>S m. pdfLoop failing_env (pdf_example [] (Some FLASH)) [Economy, Balanced] 0 empty_run = (S, Thrown m)
     \<and> setItemCalls S = [] \<and> storage S = Map.empty"
  by (simp add: pdfLoop.simps pdfAttempt_def failing_pdf_reply Let_def emit_def
      event_def empty_run_def pdf_example_sel failing_env_sel)

lemma evaluateQuality_image_A:
  "evaluateQuality_image [65] =
     \<lparr>score = 0.4, reasons = [''Fragmented line pattern detected'', ''Chunk output is unexpectedly short'']\<rparr>"
  unfolding evaluateQuality_image_def Let_def
  by (simp add: normalizedLines_def trim_def is_space_def is_word_def is_line_terminator_def
      is_heading_def is_table_line_def count_char_def)

lemma image_example_run:
  "\<exists>S. imageLoop example_env (image_example [65] (Some PRO)) [Accuracy] 0 [] [] Accuracy 1 0 0 empty_run
        = (S, Returned)
     \<and> setItemCalls S = [([107], \<lparr>imgCreatedAt = 2000, imgText = [65], imgHighestProfile = Accuracy,
                                  imgQuality = 0.4\<rparr>)]
     \<and> map eType (events S) = [ProfileStart, ProfileAccepted, Completed]
     \<and> chunks S = [[65]]"
  by (simp add: imageLoop.simps resolveSpanWithEscalation_def spanLoop.simps spanAttempt_def
      spanDecide_def example_preprocess example_span_reply example_image_prompt
      evaluateQuality_image_A image_example_sel example_env_sel slice_def trim_def is_space_def
      Let_def emit_def yield_all_def writeCache_def event_def empty_run_def maxProfile_def
      OCR_PROFILE_ORDER_def)


text \<open>
  Claim C4. A PDF run writes the cache at most once, together with its one accepted attempt:
  either nothing was accepted and nothing written, or the attempt at some index got its text
  and was accepted, and the one write holds that text, its profile and the quality of the
  completed event under the key of the request. An escalated or failed attempt writes nothing.
  An image sequence run that throws has written nothing; one that returns has had one span
  accepted for each image and then written once, the whole output as one entry. No span
  attempt writes to the cache.
\<close>

theorem cache_written_only_after_acceptance:
  "(pdfLoop e rq cands index st = (st', out) \<longrightarrow>
      (setItemCalls st' = setItemCalls st \<and> storage st' = storage st
         \<and> accepted_count st' = accepted_count st)
      \<or> (\<exists>i t q. index \<le> i \<and> i < length cands \<and> out = Returned
            \<and> runPdfAttemptStream e rq (cands ! i) = Reply t
            \<and> accepted_count st' = accepted_count st + 1
            \<and> setItemCalls st' = setItemCalls st
                 @ [(cacheKey rq, \<lparr>createdAt = now_write e, entryText = t,
                                  entryProfile = cands ! i, quality = q\<rparr>)]
            \<and> storage st' = (if setItem_throws e then storage st
                              else (storage st)(cacheKey rq \<mapsto>
                                \<lparr>createdAt = now_write e, entryText = t,
                                 entryProfile = cands ! i, quality = q\<rparr>))
            \<and> eProfile (last (events st')) = cands ! i
            \<and> eQualityScore (last (events st')) = Some q))
   \<and> (pdfAttempt e rq p isLast st = AttemptEscalated st1
        \<or> pdfAttempt e rq p isLast st = AttemptThrown st1 m \<longrightarrow>
        setItemCalls st1 = setItemCalls st \<and> storage st1 = storage st)
   \<and> setItemCalls (span_state (spanAttempt e irq cc si sp p isLast ist)) = setItemCalls ist
   \<and> storage (span_state (spanAttempt e irq cc si sp p isLast ist)) = storage ist
   \<and> (imageLoop e irq cands cursor cc acc hp mq ti to ist = (ist', iout) \<longrightarrow>
        (\<forall>msg. iout = Thrown msg \<longrightarrow>
           setItemCalls ist' = setItemCalls ist \<and> storage ist' = storage ist)
        \<and> (iout = Returned \<longrightarrow>
             (\<exists>entry. setItemCalls ist' = setItemCalls ist @ [(imageCacheKey irq, entry)]
                \<and> storage ist' = (if setItem_throws e then storage ist
                                   else (storage ist)(imageCacheKey irq \<mapsto> entry))
                \<and> imgText entry = acc @ concat (new_chunks ist ist')
                \<and> eType (last (events ist')) = Completed
                \<and> accepted_count ist' = accepted_count ist + (length (images irq) - cursor))))"
proof (intro conjI impI allI)
  assume "pdfLoop e rq cands index st = (st', out)"
  from pdfLoop_writes [OF this]
  show "(setItemCalls st' = setItemCalls st \<and> storage st' = storage st
         \<and> accepted_count st' = accepted_count st)
      \<or> (\<exists>i t q. index \<le> i \<and> i < length cands \<and> out = Returned
            \<and> runPdfAttemptStream e rq (cands ! i) = Reply t
            \<and> accepted_count st' = accepted_count st + 1
            \<and> setItemCalls st' = setItemCalls st
                 @ [(cacheKey rq, \<lparr>createdAt = now_write e, entryText = t,
                                  entryProfile = cands ! i, quality = q\<rparr>)]
            \<and> storage st' = (if setItem_throws e then storage st
                              else (storage st)(cacheKey rq \<mapsto>
                                \<lparr>createdAt = now_write e, entryText = t,
                                 entryProfile = cands ! i, quality = q\<rparr>))
            \<and> eProfile (last (events st')) = cands ! i
            \<and> eQualityScore (last (events st')) = Some q)"
    by (elim disjE exE conjE; blast)
next
  assume "pdfAttempt e rq p isLast st = AttemptEscalated st1
        \<or> pdfAttempt e rq p isLast st = AttemptThrown st1 m"
  from pdfAttempt_not_accepted [OF this]
  show "setItemCalls st1 = setItemCalls st" "storage st1 = storage st" by simp_all
next
  show "setItemCalls (span_state (spanAttempt e irq cc si sp p isLast ist)) = setItemCalls ist"
    "storage (span_state (spanAttempt e irq cc si sp p isLast ist)) = storage ist"
    using spanAttempt_state [of e irq cc si sp p isLast ist] by simp_all
next
  assume run: "imageLoop e irq cands cursor cc acc hp mq ti to ist = (ist', iout)"
  fix msg assume "iout = Thrown msg"
  with imageLoop_result [OF run]
  show "setItemCalls ist' = setItemCalls ist" "storage ist' = storage ist" by auto
next
  assume run: "imageLoop e irq cands cursor cc acc hp mq ti to ist = (ist', iout)"
    and ret: "iout = Returned"
  from imageLoop_result [OF run] ret obtain texts hp' mq' where
    ch: "chunks ist' = chunks ist @ span_chunks acc texts"
    and w: "sequence_written e irq
              (sequence_entry e (acc @ concat (span_chunks acc texts)) hp' mq') ist ist'"
    and ac: "accepted_count ist' = accepted_count ist + (length (images irq) - cursor)"
    by blast
  from ch have nc: "new_chunks ist ist' = span_chunks acc texts"
    by (simp add: new_chunks_def)
  let ?entry = "sequence_entry e (acc @ concat (span_chunks acc texts)) hp' mq'"
  have "imgText ?entry = acc @ concat (new_chunks ist ist')"
    by (simp add: sequence_entry_def nc)
  with w ac show "\<exists>entry. setItemCalls ist' = setItemCalls ist @ [(imageCacheKey irq, entry)]
                \<and> storage ist' = (if setItem_throws e then storage ist
                                   else (storage ist)(imageCacheKey irq \<mapsto> entry))
                \<and> imgText entry = acc @ concat (new_chunks ist ist')
                \<and> eType (last (events ist')) = Completed
                \<and> accepted_count ist' = accepted_count ist + (length (images irq) - cursor)"
    unfolding sequence_written_def by (intro exI [of _ ?entry]) simp
qed

theorem cache_written_only_after_acceptance_witness:
  "(\<exists>S. pdfLoop example_env (pdf_example [] (Some FLASH)) [Economy, Balanced] 0 empty_run
          = (S, Returned)
       \<and> setItemCalls S = [([107], \<lparr>createdAt = 2000, entryText = [], entryProfile = Balanced,
                                    quality = 0.234\<rparr>)]
       \<and> accepted_count S = 1)
   \<and> (\<exists>S m. pdfLoop failing_env (pdf_example [] (Some FLASH)) [Economy, Balanced] 0 empty_run
          = (S, Thrown m)
       \<and> setItemCalls S = [] \<and> accepted_count S = 0)
   \<and> (\<exists>S. imageLoop example_env (image_example [65] (Some PRO)) [Accuracy] 0 [] [] Accuracy 1 0 0
            empty_run = (S, Returned)
       \<and> setItemCalls S = [([107], \<lparr>imgCreatedAt = 2000, imgText = [65],
                                    imgHighestProfile = Accuracy, imgQuality = 0.4\<rparr>)]
       \<and> accepted_count S = 1)"
proof -
  have e0: "setItemCalls (empty_run :: PdfCacheEntry run) = []"
    "accepted_count (empty_run :: PdfCacheEntry run) = 0"
    "setItemCalls (empty_run :: ImageCacheEntry run) = []"
    "accepted_count (empty_run :: ImageCacheEntry run) = 0"
    by (simp_all add: empty_run_def accepted_count_def)
  from pdf_example_run obtain S1 where
    r1: "pdfLoop example_env (pdf_example [] (Some FLASH)) [Economy, Balanced] 0 empty_run
          = (S1, Returned)"
    and w1: "setItemCalls S1 = [([107], \<lparr>createdAt = 2000, entryText = [],
                                          entryProfile = Balanced, quality = 0.234\<rparr>)]"
    by blast
  from cache_written_only_after_acceptance
         [where e = example_env and rq = "pdf_example [] (Some FLASH)"
            and cands = "[Economy, Balanced]" and index = 0 and st = "empty_run"
            and st' = S1 and out = Returned, THEN conjunct1] r1 w1 e0
  have a1: "accepted_count S1 = 1" by auto
  from pdf_failing_run obtain S2 m where
    r2: "pdfLoop failing_env (pdf_example [] (Some FLASH)) [Economy, Balanced] 0 empty_run
          = (S2, Thrown m)"
    and w2: "setItemCalls S2 = []"
    by blast
  from cache_written_only_after_acceptance
         [where e = failing_env and rq = "pdf_example [] (Some FLASH)"
            and cands = "[Economy, Balanced]" and index = 0 and st = "empty_run"
            and st' = S2 and out = "Thrown m", THEN conjunct1] r2 w2 e0
  have a2: "accepted_count S2 = 0" by auto
  from image_example_run obtain S3 where
    r3: "imageLoop example_env (image_example [65] (Some PRO)) [Accuracy] 0 [] [] Accuracy 1 0 0
            empty_run = (S3, Returned)"
    and w3: "setItemCalls S3 = [([107], \<lparr>imgCreatedAt = 2000, imgText = [65],
                                    imgHighestProfile = Accuracy, imgQuality = 0.4\<rparr>)]"
    by blast
  from cache_written_only_after_acceptance
         [where e = example_env and irq = "image_example [65] (Some PRO)"
            and cands = "[Accuracy]" and cursor = 0 and cc = "[]" and acc = "[]"
            and hp = Accuracy and mq = 1 and ti = 0 and to = 0 and ist = "empty_run"
            and ist' = S3 and iout = Returned, THEN conjunct2, THEN conjunct2, THEN conjunct2,
            THEN conjunct2] r3 e0
  have a3: "accepted_count S3 = 1" by (auto simp: image_example_sel)
  from r1 w1 a1 r2 w2 a2 r3 w3 a3 show ?thesis by blast
qed

section \<open>Quality of an image sequence without output\<close>

lemma readImageCache_miss:
  "readImageCache e key st0 = (None, st) \<Longrightarrow>
   chunks st = chunks st0 \<and> events st = events st0 \<and> setItemCalls st = setItemCalls st0"
  by (auto simp: readImageCache_def split: option.splits if_splits)

lemma analyzeImage_miss:
  "readImageCache e (imageCacheKey rq) st0 = (None, st) \<Longrightarrow>
   analyzeImageSequenceStream e rq st0 =
     imageLoop e rq (resolveImageCandidateProfiles (imageModelId rq)) 0 [] []
       (case resolveImageCandidateProfiles (imageModelId rq) of [] \<Rightarrow> Economy | p # _ \<Rightarrow> p)
       1 0 0 st"
  by (simp add: analyzeImageSequenceStream_def Let_def)

text \<open>
  Claim C10. An image sequence run that missed the cache, returned and yielded no chunk
  (every accepted span had an empty trimmed text, as when the service answers every request
  with white space only) writes one cache entry whose text is empty and whose quality is 0,
  and reports the quality 0 in its completed event, whatever the scores of the accepted
  spans were.
\<close>

theorem empty_sequence_quality_zero:
  assumes miss: "readImageCache e (imageCacheKey rq) st0 = (None, st)"
      and run: "analyzeImageSequenceStream e rq st0 = (st', Returned)"
      and blank: "new_chunks st0 st' = []
                  \<or> (\<forall>m ps pr t. generateContentStream e m ps pr = Reply t \<longrightarrow> trim t = [])"
  shows "\<exists>entry. setItemCalls st' = setItemCalls st0 @ [(imageCacheKey rq, entry)]
           \<and> imgText entry = [] \<and> imgQuality entry = 0
           \<and> eType (last (events st')) = Completed
           \<and> eQualityScore (last (events st')) = Some 0
           \<and> new_chunks st0 st' = []"
proof -
  let ?cands = "resolveImageCandidateProfiles (imageModelId rq)"
  let ?hp = "case ?cands of [] \<Rightarrow> Economy | p # _ \<Rightarrow> p"
  from run have loop: "imageLoop e rq ?cands 0 [] [] ?hp 1 0 0 st = (st', Returned)"
    unfolding analyzeImage_miss [OF miss] .
  from imageLoop_result [OF loop] obtain texts hp' mq' where
    ch: "chunks st' = chunks st @ span_chunks [] texts"
    and sv: "\<forall>t \<in> set texts. \<exists>m ps pr. generateContentStream e m ps pr = Reply t"
    and w: "sequence_written e rq
              (sequence_entry e ([] @ concat (span_chunks [] texts)) hp' mq') st st'"
    by blast
  note same = readImageCache_miss [OF miss]
  from ch same have nc: "new_chunks st0 st' = span_chunks [] texts"
    by (simp add: new_chunks_def)
  have none: "span_chunks [] texts = []"
  proof (rule disjE [OF blank])
    assume "new_chunks st0 st' = []"
    with nc show ?thesis by simp
  next
    assume "\<forall>m ps pr t. generateContentStream e m ps pr = Reply t \<longrightarrow> trim t = []"
    with sv have "\<forall>t \<in> set texts. trim t = []" by blast
    then show ?thesis by (rule span_chunks_blank)
  qed
  let ?entry = "sequence_entry e [] hp' mq'"
  from w none same have "setItemCalls st' = setItemCalls st0 @ [(imageCacheKey rq, ?entry)]"
    "eType (last (events st')) = Completed"
    "eQualityScore (last (events st')) = Some (imgQuality ?entry)"
    by (simp_all add: sequence_written_def)
  then show ?thesis
    using nc none
    by (intro exI [of _ ?entry]) (simp add: sequence_entry_def)
qed

lemma evaluateQuality_image_blank:
  "evaluateQuality_image [32, 32] =
     \<lparr>score = 0.4, reasons = [''Fragmented line pattern detected'', ''Chunk output is unexpectedly short'']\<rparr>"
  unfolding evaluateQuality_image_def Let_def
  by (simp add: normalizedLines_def trim_def is_space_def is_word_def is_line_terminator_def
      is_heading_def is_table_line_def count_char_def)

lemma image_blank_run:
  "\<exists>S. analyzeImageSequenceStream example_env (image_example [32, 32] (Some PRO)) empty_run
        = (S, Returned)
     \<and> map eType (events S) = [ProfileStart, ProfileAccepted, Completed]
     \<and> map eQualityScore (events S) = [None, Some 0.4, Some 0]
     \<and> chunks S = []"
  by (simp add: analyzeImageSequenceStream_def readImageCache_def resolveImageCandidateProfiles_def
      imageLoop.simps resolveSpanWithEscalation_def spanLoop.simps spanAttempt_def
      spanDecide_def example_preprocess example_span_reply example_image_prompt
      evaluateQuality_image_blank image_example_sel example_env_sel slice_def trim_def is_space_def
      Let_def emit_def yield_all_def writeCache_def event_def empty_run_def maxProfile_def
      OCR_PROFILE_ORDER_def)

theorem empty_sequence_quality_zero_witness:
  "\<exists>S entry. readImageCache example_env (imageCacheKey (image_example [32, 32] (Some PRO))) empty_run
        = (None, empty_run)
     \<and> analyzeImageSequenceStream example_env (image_example [32, 32] (Some PRO)) empty_run
        = (S, Returned)
     \<and> new_chunks empty_run S = []
     \<and> map eQualityScore (events S) = [None, Some 0.4, Some 0]
     \<and> setItemCalls S = [([107], entry)] \<and> imgText entry = [] \<and> imgQuality entry = 0"
proof -
  let ?rq = "image_example [32, 32] (Some PRO)"
  have miss: "readImageCache example_env (imageCacheKey ?rq) empty_run = (None, empty_run)"
    by (simp add: readImageCache_def empty_run_def)
  from image_blank_run obtain S where
    run: "analyzeImageSequenceStream example_env ?rq empty_run = (S, Returned)"
    and ev: "map eQualityScore (events S) = [None, Some 0.4, Some 0]"
    and nochunk: "chunks S = []"
    by auto
  from nochunk have blank: "new_chunks empty_run S = []
     \<or> (\<forall>m ps pr t. generateContentStream example_env m ps pr = Reply t \<longrightarrow> trim t = [])"
    by (simp add: new_chunks_def)
  from empty_sequence_quality_zero [OF miss run blank] obtain entry where
    "setItemCalls S = setItemCalls (empty_run :: ImageCacheEntry run) @ [(imageCacheKey ?rq, entry)]"
    "imgText entry = []" "imgQuality entry = 0" "new_chunks empty_run S = []"
    by auto
  with miss run ev show ?thesis
    by (intro exI [of _ S] exI [of _ entry]) (simp add: empty_run_def image_example_sel)
qed

section \<open>Chunks of the output\<close>














end
